theory Spec2Isabelle
  imports Main "HOL-Library.Word"
begin

section \<open>Screen constants, errors and rectangles\<close>

text \<open>
  The module \<^verbatim>\<open>player_module.py\<close> contains its text twice: lines 1-183 and lines 185-430.
  Python executes the file top to bottom, so the second \<^verbatim>\<open>class\<close> statements
  (lines 212, 280, 331, 367) rebind the names \<^verbatim>\<open>Player\<close>, \<^verbatim>\<open>Bullet\<close>,
  \<^verbatim>\<open>Wall\<close> and \<^verbatim>\<open>Enemy\<close>. The definitions below follow the second copy, the classes
  that a program importing the module gets. The first copy differs in two places only:
  its \<^verbatim>\<open>Player\<close> has one more method, \<^verbatim>\<open>heal\<close> (lines 95-96), and its \<^verbatim>\<open>Wall\<close> has
  other health constants (lines 165, 180). Those are embedded under names of their own,
  and the text at the definition says so.

  Python integers are unbounded: speeds, health, lives, timers and the arguments of the
  constructors are \<^typ>\<open>int\<close>. Counters that the classes initialise to \<open>0\<close> and only ever
  increment or reset to \<open>0\<close> are \<^typ>\<open>nat\<close>.
\<close>

definition SCREEN_WIDTH :: int where
  "SCREEN_WIDTH = 800"

definition SCREEN_HEIGHT :: int where
  "SCREEN_HEIGHT = 600"

text \<open>
  The exceptions that the methods can raise. A constructor that raises builds no object:
  its result is \<open>Inl\<close> of the error, or \<open>Inr\<close> of the new object. A method that raises
  leaves the object as the statements before the raise made it: the result of a method is
  \<open>Inl\<close> of the error and the object at the raise, or \<open>Inr\<close> of the object (and the
  returned value, where there is one) when the call returns. \<open>returns\<close> says that a call
  did not raise, \<open>state_after\<close> is the object after the call in either case.
\<close>

datatype error = TypeError | AttributeError

definition returns :: "'e + 'a \<Rightarrow> bool" where
  "returns r = (case r of Inl e \<Rightarrow> False | Inr v \<Rightarrow> True)"

definition state_after :: "(error \<times> 's) + 's \<Rightarrow> 's" where
  "state_after r = (case r of Inl (err, s) \<Rightarrow> s | Inr s \<Rightarrow> s)"

text \<open>
  A \<^verbatim>\<open>pygame.Rect\<close> stores four C \<^verbatim>\<open>int\<close>s, \<open>x\<close>, \<open>y\<close>, \<open>w\<close> and \<open>h\<close>: 32-bit words, read
  in two's complement (\<open>sint\<close>). Reading an attribute gives a Python integer. The derived
  attributes are computed on the C integers, so their sums wrap around at 32 bits:
  \<^verbatim>\<open>left = x\<close>, \<^verbatim>\<open>top = y\<close>, \<^verbatim>\<open>right = x + w\<close>, \<^verbatim>\<open>bottom = y + h\<close>,
  \<^verbatim>\<open>centerx = x + w // 2\<close>, \<^verbatim>\<open>centery = y + h // 2\<close>. The halving is the floor
  division; every rectangle of this module takes its size from a surface, whose width and
  height are not negative, and there the halving of C gives the same number.

  Assigning to an attribute first converts the Python integer to a C \<^verbatim>\<open>int\<close>; when it is
  outside the 32-bit range the assignment raises \<^verbatim>\<open>TypeError\<close> and the rectangle is
  unchanged. Otherwise the assignment moves the rectangle and keeps its size; the
  subtraction that places the corner is again one of C integers.
\<close>

record rect =
  rect_x :: "32 word"
  rect_y :: "32 word"
  rect_w :: "32 word"
  rect_h :: "32 word"

definition fits_int :: "int \<Rightarrow> bool" where
  "fits_int v = (- 2147483648 \<le> v \<and> v \<le> 2147483647)"

definition int_from_obj :: "int \<Rightarrow> error + 32 word" where
  "int_from_obj v = (if fits_int v then Inr (word_of_int v) else Inl TypeError)"

definition half :: "32 word \<Rightarrow> 32 word" where
  "half c = word_of_int (sint c div 2)"

definition get_x :: "rect \<Rightarrow> int" where
  "get_x r = sint (rect_x r)"

definition get_y :: "rect \<Rightarrow> int" where
  "get_y r = sint (rect_y r)"

definition left :: "rect \<Rightarrow> int" where
  "left r = sint (rect_x r)"

definition right :: "rect \<Rightarrow> int" where
  "right r = sint (rect_x r + rect_w r)"

definition top :: "rect \<Rightarrow> int" where
  "top r = sint (rect_y r)"

definition bottom :: "rect \<Rightarrow> int" where
  "bottom r = sint (rect_y r + rect_h r)"

definition centerx :: "rect \<Rightarrow> int" where
  "centerx r = sint (rect_x r + half (rect_w r))"

definition centery :: "rect \<Rightarrow> int" where
  "centery r = sint (rect_y r + half (rect_h r))"

definition center :: "rect \<Rightarrow> int \<times> int" where
  "center r = (centerx r, centery r)"

definition set_x :: "int \<Rightarrow> rect \<Rightarrow> error + rect" where
  "set_x v r = (case int_from_obj v of Inl err \<Rightarrow> Inl err | Inr c \<Rightarrow> Inr (r\<lparr>rect_x := c\<rparr>))"

definition set_y :: "int \<Rightarrow> rect \<Rightarrow> error + rect" where
  "set_y v r = (case int_from_obj v of Inl err \<Rightarrow> Inl err | Inr c \<Rightarrow> Inr (r\<lparr>rect_y := c\<rparr>))"

definition set_left :: "int \<Rightarrow> rect \<Rightarrow> error + rect" where
  "set_left v r = (case int_from_obj v of Inl err \<Rightarrow> Inl err | Inr c \<Rightarrow> Inr (r\<lparr>rect_x := c\<rparr>))"

definition set_right :: "int \<Rightarrow> rect \<Rightarrow> error + rect" where
  "set_right v r =
     (case int_from_obj v of Inl err \<Rightarrow> Inl err | Inr c \<Rightarrow> Inr (r\<lparr>rect_x := c - rect_w r\<rparr>))"

definition set_center :: "int \<times> int \<Rightarrow> rect \<Rightarrow> error + rect" where
  "set_center c r =
     (case int_from_obj (fst c) of
        Inl err \<Rightarrow> Inl err
      | Inr cx \<Rightarrow>
          (case int_from_obj (snd c) of
             Inl err \<Rightarrow> Inl err
           | Inr cy \<Rightarrow> Inr (r\<lparr>rect_x := cx - half (rect_w r), rect_y := cy - half (rect_h r)\<rparr>)))"

text \<open>
  The image files under \<^verbatim>\<open>Textures/\<close> are not part of the sources. Of a surface only
  its size (width, height) reaches the logic, through \<^verbatim>\<open>get_rect\<close>; the sizes of the
  files the classes load are therefore parameters. A surface stores its size as C
  \<^verbatim>\<open>int\<close>s as well, and no surface has a negative width or height.
  \<^verbatim>\<open>Surface.get_rect()\<close> is the rectangle of that size at the origin, and
  \<^verbatim>\<open>get_rect(center=c)\<close> is the same rectangle after the assignment \<^verbatim>\<open>center = c\<close>.
\<close>

type_synonym size = "32 word \<times> 32 word"

record textures =
  Player_png :: size
  PlayerBullet1_png :: size
  EnemyBullet1_png :: size
  ExplosionPhase1_png :: size
  WallState1_png :: size

definition get_rect :: "size \<Rightarrow> rect" where
  "get_rect s = \<lparr>rect_x = 0, rect_y = 0, rect_w = fst s, rect_h = snd s\<rparr>"

definition get_rect_center :: "size \<Rightarrow> int \<times> int \<Rightarrow> error + rect" where
  "get_rect_center s c = set_center c (get_rect s)"

section \<open>Bullet\<close>

text \<open>
  \<^verbatim>\<open>self.image\<close> is one of the two flight frames or one of the three explosion phases;
  the value records which list it was taken from and at which index.
  \<^verbatim>\<open>Sprite.kill()\<close> removes the sprite from every group that holds it: the field
  \<open>b_alive\<close> says whether the bullet is still in the live set.
\<close>

datatype surface = images nat | explosion_images nat

record Bullet =
  is_enemy :: bool
  image_index :: nat
  b_image :: surface
  b_rect :: rect
  b_speed :: int
  exploding :: bool
  explosion_index :: nat
  explosion_timer :: nat
  b_alive :: bool

definition Bullet_init :: "textures \<Rightarrow> int \<Rightarrow> int \<Rightarrow> bool \<Rightarrow> error + Bullet" where
  "Bullet_init tx x y enemy =
     (case set_center (x, y)
             (get_rect (if enemy then EnemyBullet1_png tx else PlayerBullet1_png tx)) of
        Inl err \<Rightarrow> Inl err
      | Inr r \<Rightarrow>
          Inr \<lparr>is_enemy = enemy,
               image_index = 0,
               b_image = images 0,
               b_rect = r,
               b_speed = (if enemy then 5 else - 5),
               exploding = False,
               explosion_index = 0,
               explosion_timer = 0,
               b_alive = True\<rparr>)"

definition Bullet_kill :: "Bullet \<Rightarrow> Bullet" where
  "Bullet_kill b = b\<lparr>b_alive := False\<rparr>"

definition trigger_explosion :: "textures \<Rightarrow> Bullet \<Rightarrow> (error \<times> Bullet) + Bullet" where
  "trigger_explosion tx b =
     (let b1 = b\<lparr>exploding := True, b_image := explosion_images 0\<rparr> in
      case get_rect_center (ExplosionPhase1_png tx) (center (b_rect b1)) of
        Inl err \<Rightarrow> Inl (err, b1)
      | Inr r \<Rightarrow> Inr (b1\<lparr>b_rect := r\<rparr>))"

definition Bullet_update :: "textures \<Rightarrow> Bullet \<Rightarrow> (error \<times> Bullet) + Bullet" where
  "Bullet_update tx b =
     (if exploding b then
        (let b1 = b\<lparr>explosion_timer := explosion_timer b + 1\<rparr> in
         if explosion_timer b1 mod 5 = 0 then
           (let b2 = b1\<lparr>explosion_index := explosion_index b1 + 1\<rparr> in
            if explosion_index b2 < 3
            then Inr (b2\<lparr>b_image := explosion_images (explosion_index b2)\<rparr>)
            else Inr (Bullet_kill b2))
         else Inr b1)
      else
        (case set_y (get_y (b_rect b) + b_speed b) (b_rect b) of
           Inl err \<Rightarrow> Inl (err, b)
         | Inr r \<Rightarrow>
             (let i = (image_index b + 1) mod 2;
                  b1 = b\<lparr>b_rect := r, image_index := i, b_image := images i\<rparr>
              in if bottom (b_rect b1) < 0 \<or> top (b_rect b1) > SCREEN_HEIGHT
                 then trigger_explosion tx b1
                 else Inr b1)))"

text \<open>The bullet after one \<^verbatim>\<open>update()\<close> call, whether the call returned or raised.\<close>

definition Bullet_tick :: "textures \<Rightarrow> Bullet \<Rightarrow> Bullet" where
  "Bullet_tick tx b = state_after (Bullet_update tx b)"

section \<open>Wall\<close>

text \<open>
  \<^verbatim>\<open>self.image\<close> of a wall is the file \<^verbatim>\<open>self.states[i]\<close> last loaded; \<open>w_image\<close> is
  that index \<open>i\<close>. The three files have the names \<^verbatim>\<open>WallState1.png\<close> to
  \<^verbatim>\<open>WallState3.png\<close>; only the first fixes the rectangle.
\<close>

record Wall =
  w_image :: nat
  w_rect :: rect
  health :: int
  state_index :: nat
  w_alive :: bool

definition Wall_init :: "textures \<Rightarrow> int \<Rightarrow> int \<Rightarrow> error + Wall" where
  "Wall_init tx x y =
     (case get_rect_center (WallState1_png tx) (x, y) of
        Inl err \<Rightarrow> Inl err
      | Inr r \<Rightarrow>
          Inr \<lparr>w_image = 0,
               w_rect = r,
               health = 25,
               state_index = 0,
               w_alive = True\<rparr>)"

definition Wall_kill :: "Wall \<Rightarrow> Wall" where
  "Wall_kill wl = wl\<lparr>w_alive := False\<rparr>"

definition Wall_take_damage :: "Wall \<Rightarrow> Wall" where
  "Wall_take_damage wl =
     (let w1 = wl\<lparr>health := health wl - 1\<rparr>;
          w2 = (if health w1 \<le> 6 \<and> state_index w1 < 2
                then (let w3 = w1\<lparr>state_index := state_index w1 + 1\<rparr>
                      in w3\<lparr>w_image := state_index w3\<rparr>)
                else w1)
      in if health w2 \<le> 0 then Wall_kill w2 else w2)"

definition Wall_reset :: "Wall \<Rightarrow> Wall" where
  "Wall_reset wl =
     (let w1 = wl\<lparr>health := 10\<rparr>;
          w2 = w1\<lparr>state_index := 0\<rparr>
      in w2\<lparr>w_image := state_index w2\<rparr>)"

text \<open>
  The first copy of the class (lines 149-183), which the second replaces when the module
  is loaded, differs in the two health constants only.
\<close>

definition Wall_init_first_copy :: "textures \<Rightarrow> int \<Rightarrow> int \<Rightarrow> error + Wall" where
  "Wall_init_first_copy tx x y =
     (case get_rect_center (WallState1_png tx) (x, y) of
        Inl err \<Rightarrow> Inl err
      | Inr r \<Rightarrow>
          Inr \<lparr>w_image = 0,
               w_rect = r,
               health = 15,
               state_index = 0,
               w_alive = True\<rparr>)"

definition Wall_reset_first_copy :: "Wall \<Rightarrow> Wall" where
  "Wall_reset_first_copy wl =
     (let w1 = wl\<lparr>health := 15\<rparr>;
          w2 = w1\<lparr>state_index := 0\<rparr>
      in w2\<lparr>w_image := state_index w2\<rparr>)"

section \<open>Player\<close>

text \<open>
  The pixels of the player's surface (recoloured by \<^verbatim>\<open>change_color\<close>) are not
  modelled. \<^verbatim>\<open>keys\<close> is the key state that \<^verbatim>\<open>pygame.key.get_pressed()\<close> returns:
  a key code is mapped to whether that key is down.
\<close>

record Player =
  index :: int
  left_key :: int
  right_key :: int
  lives :: int
  p_rect :: rect
  p_speed :: int

definition K_a :: int where
  "K_a = 97"

definition K_d :: int where
  "K_d = 100"

definition Player_init ::
  "textures \<Rightarrow> int \<Rightarrow> int \<Rightarrow> int \<Rightarrow> int \<Rightarrow> int \<Rightarrow> error + Player" where
  "Player_init tx screen_width screen_height idx lk rk =
     (case set_center (screen_width div 2, screen_height - 50) (get_rect (Player_png tx)) of
        Inl err \<Rightarrow> Inl err
      | Inr r \<Rightarrow>
          Inr \<lparr>index = idx,
               left_key = lk,
               right_key = rk,
               lives = 3,
               p_rect = r,
               p_speed = 5\<rparr>)"

definition Player_update :: "(int \<Rightarrow> bool) \<Rightarrow> Player \<Rightarrow> (error \<times> Player) + Player" where
  "Player_update keys p =
     (case (if keys (left_key p)
            then set_x (get_x (p_rect p) - p_speed p) (p_rect p)
            else Inr (p_rect p)) of
        Inl err \<Rightarrow> Inl (err, p)
      | Inr r1 \<Rightarrow>
          (case (if keys (right_key p)
                 then set_x (get_x r1 + p_speed p) r1
                 else Inr r1) of
             Inl err \<Rightarrow> Inl (err, p\<lparr>p_rect := r1\<rparr>)
           | Inr r2 \<Rightarrow>
               (if left r2 < 0 then
                  (case set_left 0 r2 of
                     Inl err \<Rightarrow> Inl (err, p\<lparr>p_rect := r2\<rparr>)
                   | Inr r3 \<Rightarrow> Inr (p\<lparr>p_rect := r3\<rparr>))
                else if right r2 > SCREEN_WIDTH then
                  (case set_right SCREEN_WIDTH r2 of
                     Inl err \<Rightarrow> Inl (err, p\<lparr>p_rect := r2\<rparr>)
                   | Inr r3 \<Rightarrow> Inr (p\<lparr>p_rect := r3\<rparr>))
                else Inr (p\<lparr>p_rect := r2\<rparr>))))"

definition set_controls :: "int \<Rightarrow> int \<Rightarrow> Player \<Rightarrow> Player" where
  "set_controls lk rk p = p\<lparr>left_key := lk, right_key := rk\<rparr>"

definition Player_take_damage :: "int \<Rightarrow> Player \<Rightarrow> Player" where
  "Player_take_damage amount p = p\<lparr>lives := max 0 (lives p - amount)\<rparr>"

text \<open>
  One call of a method on a player of the loaded class, and the player after a sequence
  of calls made in order on the same object, whether or not one of them raised. The
  loaded class has no attribute \<^verbatim>\<open>heal\<close>: the call \<^verbatim>\<open>heal()\<close> raises
  \<^verbatim>\<open>AttributeError\<close> and changes nothing.
\<close>

datatype player_call = Update "int \<Rightarrow> bool" | TakeDamage int | Heal

fun Player_call :: "player_call \<Rightarrow> Player \<Rightarrow> (error \<times> Player) + Player" where
  "Player_call (Update keys) p = Player_update keys p"
| "Player_call (TakeDamage amount) p = Inr (Player_take_damage amount p)"
| "Player_call Heal p = Inl (AttributeError, p)"

fun Player_calls :: "player_call list \<Rightarrow> Player \<Rightarrow> Player" where
  "Player_calls [] p = p"
| "Player_calls (c # cs) p = Player_calls cs (state_after (Player_call c p))"

text \<open>
  \<^verbatim>\<open>heal\<close> of the first copy of the class (lines 95-96), which is not reachable once
  the module is loaded: \<^verbatim>\<open>self.lives = max(0, self.lives == 3)\<close>. The comparison is a
  \<^verbatim>\<open>bool\<close>, which Python orders and counts as the integer \<open>1\<close> (\<^verbatim>\<open>True\<close>) or \<open>0\<close>
  (\<^verbatim>\<open>False\<close>).
\<close>

definition py_bool :: "bool \<Rightarrow> int" where
  "py_bool c = (if c then 1 else 0)"

definition Player_heal_first_copy :: "Player \<Rightarrow> Player" where
  "Player_heal_first_copy p = p\<lparr>lives := max 0 (py_bool (lives p = 3))\<rparr>"

section \<open>Enemy\<close>

text \<open>
  The enemy's surface is the file named by \<^verbatim>\<open>image_path\<close>, or a 50 by 40 placeholder
  when loading raises \<^verbatim>\<open>FileNotFoundError\<close>: the argument \<open>img\<close> is the size of the
  file, \<open>None\<close> when it is missing.
\<close>

record Enemy =
  e_size :: size
  e_rect :: rect
  e_health :: int
  e_speed :: int
  direction :: int
  can_shoot :: bool
  shooting_timer :: int
  shooting_cooldown :: int
  move_delay :: int
  current_frame :: int
  e_alive :: bool

definition Enemy_init :: "size option \<Rightarrow> int \<Rightarrow> int \<Rightarrow> error + Enemy" where
  "Enemy_init img x y =
     (let s = (case img of Some s \<Rightarrow> s | None \<Rightarrow> (50, 40)) in
      case get_rect_center s (x, y) of
        Inl err \<Rightarrow> Inl err
      | Inr r \<Rightarrow>
          Inr \<lparr>e_size = s,
               e_rect = r,
               e_health = 1,
               e_speed = 10,
               direction = 1,
               can_shoot = True,
               shooting_timer = 10,
               shooting_cooldown = 1,
               move_delay = 10,
               current_frame = 0,
               e_alive = True\<rparr>)"

definition Enemy_update :: "Enemy \<Rightarrow> (error \<times> Enemy) + Enemy" where
  "Enemy_update e =
     (let e1 = e\<lparr>current_frame := current_frame e + 1\<rparr> in
      case (if current_frame e1 \<ge> move_delay e1 then
              (case set_x (get_x (e_rect e1) + e_speed e1 * direction e1) (e_rect e1) of
                 Inl err \<Rightarrow> Inl (err, e1)
               | Inr r \<Rightarrow>
                   (let e3 = e1\<lparr>e_rect := r\<rparr> in
                    case (if right (e_rect e3) \<ge> SCREEN_WIDTH \<or> left (e_rect e3) \<le> 0 then
                            (let e5 = e3\<lparr>direction := direction e3 * (- 1)\<rparr> in
                             case set_y (get_y (e_rect e5) + 20) (e_rect e5) of
                               Inl err \<Rightarrow> Inl (err, e5)
                             | Inr r' \<Rightarrow> Inr (e5\<lparr>e_rect := r'\<rparr>))
                          else Inr e3) of
                      Inl raised \<Rightarrow> Inl raised
                    | Inr e4 \<Rightarrow> Inr (e4\<lparr>current_frame := 0\<rparr>)))
            else Inr e1) of
        Inl raised \<Rightarrow> Inl raised
      | Inr e2 \<Rightarrow>
          (if shooting_timer e2 > 0
           then Inr (e2\<lparr>shooting_timer := shooting_timer e2 - 1\<rparr>)
           else Inr (e2\<lparr>can_shoot := True\<rparr>)))"

text \<open>The enemy after one \<^verbatim>\<open>update()\<close> call, whether the call returned or raised.\<close>

definition Enemy_tick :: "Enemy \<Rightarrow> Enemy" where
  "Enemy_tick e = state_after (Enemy_update e)"

definition shoot :: "textures \<Rightarrow> Enemy \<Rightarrow> (error \<times> Enemy) + (Bullet option \<times> Enemy)" where
  "shoot tx e =
     (if can_shoot e then
        (let e1 = e\<lparr>can_shoot := False\<rparr>;
             e2 = e1\<lparr>shooting_timer := shooting_cooldown e1\<rparr>
         in case Bullet_init tx (centerx (e_rect e2)) (bottom (e_rect e2)) True of
              Inl err \<Rightarrow> Inl (err, e2)
            | Inr b \<Rightarrow> Inr (Some b, e2))
      else Inr (None, e))"

definition Enemy_take_damage :: "Enemy \<Rightarrow> Enemy" where
  "Enemy_take_damage e =
     (let e1 = e\<lparr>e_health := e_health e - 1\<rparr>
      in if e_health e1 \<le> 0 then e1\<lparr>e_alive := False\<rparr> else e1)"

text \<open>
  A run of calls made in order on one enemy, whether or not one of them raised: the
  bullets that the \<^verbatim>\<open>shoot()\<close> calls returned, and the enemy afterwards.
\<close>

datatype enemy_call = Tick | Shoot

fun Enemy_calls :: "textures \<Rightarrow> enemy_call list \<Rightarrow> Enemy \<Rightarrow> Bullet list \<times> Enemy" where
  "Enemy_calls tx [] e = ([], e)"
| "Enemy_calls tx (Tick # cs) e = Enemy_calls tx cs (Enemy_tick e)"
| "Enemy_calls tx (Shoot # cs) e =
     (case shoot tx e of
        Inl (err, e') \<Rightarrow> Enemy_calls tx cs e'
      | Inr (None, e') \<Rightarrow> Enemy_calls tx cs e'
      | Inr (Some b, e') \<Rightarrow> (let (bs, e'') = Enemy_calls tx cs e' in (b # bs, e'')))"

section \<open>Concrete inputs\<close>

text \<open>
  Texture sizes for the concrete runs below: a 50 by 40 player, 4 by 10 bullets, a
  16 by 16 explosion and a 60 by 40 wall.
\<close>

definition example_textures :: textures where
  "example_textures =
     \<lparr>Player_png = (50, 40),
      PlayerBullet1_png = (4, 10),
      EnemyBullet1_png = (4, 10),
      ExplosionPhase1_png = (16, 16),
      WallState1_png = (60, 40)\<rparr>"

text \<open>
  The player bullet that \<^verbatim>\<open>Bullet(100, 300)\<close> builds, the same bullet once
  \<^verbatim>\<open>trigger_explosion()\<close> has run on it, and the player bullet that
  \<^verbatim>\<open>Bullet(100, 5)\<close> builds, whose rectangle spans 0 to 10 vertically.
\<close>

definition example_bullet :: Bullet where
  "example_bullet =
     \<lparr>is_enemy = False, image_index = 0, b_image = images 0,
      b_rect = \<lparr>rect_x = 98, rect_y = 295, rect_w = 4, rect_h = 10\<rparr>,
      b_speed = - 5, exploding = False, explosion_index = 0, explosion_timer = 0,
      b_alive = True\<rparr>"

definition example_explosion :: Bullet where
  "example_explosion =
     \<lparr>is_enemy = False, image_index = 0, b_image = explosion_images 0,
      b_rect = \<lparr>rect_x = 92, rect_y = 292, rect_w = 16, rect_h = 16\<rparr>,
      b_speed = - 5, exploding = True, explosion_index = 0, explosion_timer = 0,
      b_alive = True\<rparr>"

definition example_low_bullet :: Bullet where
  "example_low_bullet =
     \<lparr>is_enemy = False, image_index = 0, b_image = images 0,
      b_rect = \<lparr>rect_x = 98, rect_y = 0, rect_w = 4, rect_h = 10\<rparr>,
      b_speed = - 5, exploding = False, explosion_index = 0, explosion_timer = 0,
      b_alive = True\<rparr>"

text \<open>
  The player bullet that \<^verbatim>\<open>Bullet(100, -2147483640)\<close> builds: its rectangle is at
  \<open>y = -2147483645\<close>, three above the least C \<^verbatim>\<open>int\<close>.
\<close>

definition example_far_bullet :: Bullet where
  "example_far_bullet =
     \<lparr>is_enemy = False, image_index = 0, b_image = images 0,
      b_rect = \<lparr>rect_x = 98, rect_y = - 2147483645, rect_w = 4, rect_h = 10\<rparr>,
      b_speed = - 5, exploding = False, explosion_index = 0, explosion_timer = 0,
      b_alive = True\<rparr>"

text \<open>
  Three abbreviations for the flight branch of \<^verbatim>\<open>Bullet.update\<close>: whether the
  assignment of \<^verbatim>\<open>self.rect.y += self.speed\<close> is within the range of a C \<^verbatim>\<open>int\<close>, the
  rectangle after it when it is, and the test of line 322,
  \<^verbatim>\<open>self.rect.bottom < 0 or self.rect.top > SCREEN_HEIGHT\<close>.
\<close>

definition Bullet_move_fits :: "Bullet \<Rightarrow> bool" where
  "Bullet_move_fits b = fits_int (get_y (b_rect b) + b_speed b)"

definition Bullet_moved :: "Bullet \<Rightarrow> rect" where
  "Bullet_moved b = (b_rect b)\<lparr>rect_y := word_of_int (get_y (b_rect b) + b_speed b)\<rparr>"

definition off_screen :: "rect \<Rightarrow> bool" where
  "off_screen r = (bottom r < 0 \<or> top r > SCREEN_HEIGHT)"

text \<open>
  A bullet in flight near the screen: its speed is not \<open>0\<close>, and its speed, its height
  and its vertical position are at most \<open>10\<^sup>9\<close> in absolute value. The bullets that the
  game fires (speed \<open>5\<close> or \<open>-5\<close>, from a player or an enemy on the screen) are of
  this kind.
\<close>

definition near_screen :: "Bullet \<Rightarrow> bool" where
  "near_screen b =
     (b_speed b \<noteq> 0 \<and> \<bar>b_speed b\<bar> \<le> 1000000000 \<and>
      0 \<le> sint (rect_h (b_rect b)) \<and> sint (rect_h (b_rect b)) \<le> 1000000000 \<and>
      \<bar>get_y (b_rect b)\<bar> \<le> 1000000000)"

text \<open>The wall that \<^verbatim>\<open>Wall(400, 500)\<close> builds.\<close>

definition example_wall :: Wall where
  "example_wall =
     \<lparr>w_image = 0, w_rect = \<lparr>rect_x = 370, rect_y = 480, rect_w = 60, rect_h = 40\<rparr>,
      health = 25, state_index = 0, w_alive = True\<rparr>"

text \<open>
  A call that does not take a negative amount of damage: every \<^verbatim>\<open>update\<close> and
  \<^verbatim>\<open>heal\<close> call, and \<^verbatim>\<open>take_damage(amount)\<close> with \<open>amount \<ge> 0\<close>.
\<close>

definition nonneg_damage :: "player_call \<Rightarrow> bool" where
  "nonneg_damage c = (case c of TakeDamage amount \<Rightarrow> 0 \<le> amount | _ \<Rightarrow> True)"

text \<open>
  Three abbreviations for \<^verbatim>\<open>Player.update\<close>. \<open>Player_moves_fit\<close>: the assignments of
  lines 247 and 249 that the keys select are within the range of a C \<^verbatim>\<open>int\<close>.
  \<open>Player_moved\<close>: the rectangle after those assignments when they are.
  \<open>Player_clamped\<close>: the \<^verbatim>\<open>if\<close> / \<^verbatim>\<open>elif\<close> of lines 252-255 on a rectangle.
\<close>

definition Player_moves_fit :: "(int \<Rightarrow> bool) \<Rightarrow> Player \<Rightarrow> bool" where
  "Player_moves_fit keys p =
     ((if keys (left_key p) then fits_int (get_x (p_rect p) - p_speed p) else True) \<and>
      (if keys (right_key p)
       then fits_int ((if keys (left_key p) then get_x (p_rect p) - p_speed p
                       else get_x (p_rect p)) + p_speed p)
       else True))"

definition Player_moved :: "(int \<Rightarrow> bool) \<Rightarrow> Player \<Rightarrow> rect" where
  "Player_moved keys p =
     (p_rect p)\<lparr>rect_x := word_of_int (get_x (p_rect p)
                   - (if keys (left_key p) then p_speed p else 0)
                   + (if keys (right_key p) then p_speed p else 0))\<rparr>"

definition Player_clamped :: "rect \<Rightarrow> rect" where
  "Player_clamped r =
     (if left r < 0 then r\<lparr>rect_x := 0\<rparr>
      else if right r > SCREEN_WIDTH then r\<lparr>rect_x := word_of_int SCREEN_WIDTH - rect_w r\<rparr>
      else r)"

text \<open>
  Player 1 with the default keys, as the constructor builds it with
  \<open>screen_width = 800\<close>, with \<open>screen_width = 2000\<close>, with \<open>screen_width = 4294967260\<close>
  (the centre at \<open>x = 2147483630\<close>) and with \<open>screen_width = -4294967246\<close> (the centre at
  \<open>x = -2147483623\<close>, the rectangle at the least C \<^verbatim>\<open>int\<close>); \<open>screen_height\<close> is \<open>600\<close>.
  Then three key states: no key down, only \<^verbatim>\<open>K_d\<close> down, only \<^verbatim>\<open>K_a\<close> down.
\<close>

definition example_player :: Player where
  "example_player =
     \<lparr>index = 1, left_key = K_a, right_key = K_d, lives = 3,
      p_rect = \<lparr>rect_x = 375, rect_y = 530, rect_w = 50, rect_h = 40\<rparr>, p_speed = 5\<rparr>"

definition wide_screen_player :: Player where
  "wide_screen_player =
     \<lparr>index = 1, left_key = K_a, right_key = K_d, lives = 3,
      p_rect = \<lparr>rect_x = 975, rect_y = 530, rect_w = 50, rect_h = 40\<rparr>, p_speed = 5\<rparr>"

definition far_player :: Player where
  "far_player =
     \<lparr>index = 1, left_key = K_a, right_key = K_d, lives = 3,
      p_rect = \<lparr>rect_x = 2147483605, rect_y = 530, rect_w = 50, rect_h = 40\<rparr>, p_speed = 5\<rparr>"


definition no_keys :: "int \<Rightarrow> bool" where
  "no_keys k = False"



text \<open>
  Abbreviations for the movement branch of \<^verbatim>\<open>Enemy.update\<close>: the test of line 396
  after the increment of line 395; whether the assignment of line 397 is within the
  range of a C \<^verbatim>\<open>int\<close>, and the rectangle after it when it is; the test of line 398;
  whether the assignment of line 400 is within the range of a C \<^verbatim>\<open>int\<close>.
\<close>

definition move_due :: "Enemy \<Rightarrow> bool" where
  "move_due e = (current_frame e + 1 \<ge> move_delay e)"

definition Enemy_move_fits :: "Enemy \<Rightarrow> bool" where
  "Enemy_move_fits e = fits_int (get_x (e_rect e) + e_speed e * direction e)"

definition Enemy_moved :: "Enemy \<Rightarrow> rect" where
  "Enemy_moved e =
     (e_rect e)\<lparr>rect_x := word_of_int (get_x (e_rect e) + e_speed e * direction e)\<rparr>"

definition at_edge :: "rect \<Rightarrow> bool" where
  "at_edge r = (right r \<ge> SCREEN_WIDTH \<or> left r \<le> 0)"

definition Enemy_step_down_fits :: "Enemy \<Rightarrow> bool" where
  "Enemy_step_down_fits e = fits_int (get_y (e_rect e) + 20)"

text \<open>
  The enemy that \<^verbatim>\<open>Enemy(25, 100, path)\<close> builds when the file is missing (the 50 by 40
  placeholder), so that its rectangle starts at \<open>x = 0\<close>; the same enemy after it has
  fired; and the enemy that \<^verbatim>\<open>Enemy(0, 2147483647, path)\<close> builds when the file is
  missing, with its centre at the greatest C \<^verbatim>\<open>int\<close>.
\<close>

definition example_enemy :: Enemy where
  "example_enemy =
     \<lparr>e_size = (50, 40), e_rect = \<lparr>rect_x = 0, rect_y = 80, rect_w = 50, rect_h = 40\<rparr>,
      e_health = 1, e_speed = 10, direction = 1, can_shoot = True, shooting_timer = 10,
      shooting_cooldown = 1, move_delay = 10, current_frame = 0, e_alive = True\<rparr>"

definition fired_enemy :: Enemy where
  "fired_enemy = example_enemy\<lparr>can_shoot := False, shooting_timer := 1\<rparr>"

text \<open>
  The bullet that the first enemy fires: \<^verbatim>\<open>Bullet(25, 120, is_enemy=True)\<close>, at the
  centre of the enemy's bottom edge.
\<close>

definition example_shot :: Bullet where
  "example_shot =
     \<lparr>is_enemy = True, image_index = 0, b_image = images 0,
      b_rect = \<lparr>rect_x = 23, rect_y = 115, rect_w = 4, rect_h = 10\<rparr>,
      b_speed = 5, exploding = False, explosion_index = 0, explosion_timer = 0,
      b_alive = True\<rparr>"

definition high_enemy :: Enemy where
  "high_enemy =
     \<lparr>e_size = (50, 40),
      e_rect = \<lparr>rect_x = - 25, rect_y = 2147483627, rect_w = 50, rect_h = 40\<rparr>,
      e_health = 1, e_speed = 10, direction = 1, can_shoot = True, shooting_timer = 10,
      shooting_cooldown = 1, move_delay = 10, current_frame = 0, e_alive = True\<rparr>"

section \<open>Results of calls\<close>

lemma state_after_Inr: "state_after (Inr s) = s"
  by (simp add: state_after_def)

lemma state_after_Inl: "state_after (Inl (err, s)) = s"
  by (simp add: state_after_def)

lemma returns_Inr: "returns (Inr v)"
  by (simp add: returns_def)

lemma returns_Inl: "\<not> returns (Inl e)"
  by (simp add: returns_def)

section \<open>Arithmetic of C integers\<close>

lemma fits_sint: "fits_int (sint (a :: 32 word))"
  using sint_ge[of a] sint_lt[of a] by (simp add: fits_int_def)

lemma sint_bounds:
  "- 2147483648 \<le> sint (a :: 32 word)" "sint (a :: 32 word) \<le> 2147483647"
  using fits_sint[of a] by (simp_all add: fits_int_def)

lemma sint_word_of_int_fits:
  "fits_int v \<Longrightarrow> sint (word_of_int v :: 32 word) = v"
  by (simp add: fits_int_def sint_sbintrunc' signed_take_bit_int_eq_self)

lemma sint_add_fits:
  "fits_int (sint a + sint b) \<Longrightarrow> sint (a + b) = sint a + sint (b :: 32 word)"
  by (simp add: fits_int_def sint_word_ariths signed_take_bit_int_eq_self)

lemma sint_sub_fits:
  "fits_int (sint a - sint b) \<Longrightarrow> sint (a - b) = sint a - sint (b :: 32 word)"
  by (simp add: fits_int_def sint_word_ariths signed_take_bit_int_eq_self)

lemma int_from_obj_sint: "int_from_obj (sint a) = Inr a"
  by (simp add: int_from_obj_def fits_sint)

lemma wrap_hi:
  "2147483647 < (s::int) \<Longrightarrow> s \<le> 4294967294 \<Longrightarrow> signed_take_bit (31::nat) s = s - 4294967296"
proof -
  assume a: "2147483647 < s" "s \<le> 4294967294"
  have "signed_take_bit (31::nat) (s - 4294967296) = s - 4294967296"
    using a by (intro signed_take_bit_int_eq_self) simp_all
  moreover have "(s + 2147483648) mod 4294967296 = (s - 2147483648) mod 4294967296"
    using mod_add_self2[of "s - 2147483648" 4294967296] by (simp add: add.commute)
  then have "signed_take_bit (31::nat) (s - 4294967296) = signed_take_bit 31 s"
    by (simp add: signed_take_bit_eq_take_bit_shift take_bit_eq_mod)
  ultimately show ?thesis by simp
qed

lemma sint_add_wraps:
  "2147483647 < sint a + sint b \<Longrightarrow> sint (a + b :: 32 word) = sint a + sint b - 4294967296"
  using sint_bounds[of a] sint_bounds[of b]
  by (simp add: sint_word_ariths wrap_hi)

section \<open>Assignments to a rectangle\<close>

lemma set_left_0: "set_left 0 r = Inr (r\<lparr>rect_x := 0\<rparr>)"
  by (simp add: set_left_def int_from_obj_def fits_int_def)

lemma set_right_SCREEN_WIDTH:
  "set_right SCREEN_WIDTH r = Inr (r\<lparr>rect_x := word_of_int SCREEN_WIDTH - rect_w r\<rparr>)"
  by (simp add: set_right_def int_from_obj_def fits_int_def SCREEN_WIDTH_def)

lemma set_x_cases:
  "set_x v r = (if fits_int v then Inr (r\<lparr>rect_x := word_of_int v\<rparr>) else Inl TypeError)"
  by (simp add: set_x_def int_from_obj_def)

lemma set_y_cases:
  "set_y v r = (if fits_int v then Inr (r\<lparr>rect_y := word_of_int v\<rparr>) else Inl TypeError)"
  by (simp add: set_y_def int_from_obj_def)

lemma get_x_moved:
  "fits_int v \<Longrightarrow> get_x (r\<lparr>rect_x := word_of_int v\<rparr>) = v"
  by (simp add: get_x_def sint_word_of_int_fits del: of_int_add of_int_diff)

section \<open>The explosion of a bullet\<close>

lemma Bullet_update_exploding_returns:
  "exploding b \<Longrightarrow> returns (Bullet_update tx b)"
  by (simp add: Bullet_update_def Let_def returns_def)

lemma Bullet_tick_exploding_step:
  assumes "exploding b"
  shows "exploding (Bullet_tick tx b)"
    and "explosion_timer (Bullet_tick tx b) = Suc (explosion_timer b)"
    and "explosion_index (Bullet_tick tx b) =
           (if Suc (explosion_timer b) mod 5 = 0 then Suc (explosion_index b)
            else explosion_index b)"
    and "b_alive (Bullet_tick tx b) =
           (b_alive b \<and> \<not> (Suc (explosion_timer b) mod 5 = 0 \<and> 2 \<le> explosion_index b))"
  using assms
  by (auto simp add: Bullet_tick_def state_after_def Bullet_update_def Bullet_kill_def Let_def)

lemma Bullet_ticks_exploding_keeps:
  "exploding b \<Longrightarrow> exploding ((Bullet_tick tx ^^ n) b)"
  by (induction n) (simp_all add: Bullet_tick_exploding_step(1))

text \<open>
  During the first fourteen ticks of an explosion the timer counts the ticks, the frame
  index is the timer divided by five, and the bullet stays in the live set.
\<close>

lemma explosion_progress:
  assumes "exploding b" "explosion_timer b = 0" "explosion_index b = 0" "b_alive b"
  shows "n < 15 \<Longrightarrow>
     exploding ((Bullet_tick tx ^^ n) b) \<and>
     explosion_timer ((Bullet_tick tx ^^ n) b) = n \<and>
     explosion_index ((Bullet_tick tx ^^ n) b) = n div 5 \<and>
     b_alive ((Bullet_tick tx ^^ n) b)"
proof (induction n)
  case 0
  then show ?case using assms by simp
next
  case (Suc n)
  define c where "c = (Bullet_tick tx ^^ n) b"
  from Suc have IH: "exploding c" "explosion_timer c = n" "explosion_index c = n div 5" "b_alive c"
    by (simp_all add: c_def)
  have step: "(Bullet_tick tx ^^ Suc n) b = Bullet_tick tx c"
    by (simp add: c_def)
  from Suc.prems have lt: "n div 5 < 2 \<or> Suc n mod 5 \<noteq> 0" by presburger
  have d1: "Suc n mod 5 = 0 \<Longrightarrow> Suc (n div 5) = Suc n div 5" by presburger
  have d2: "Suc n mod 5 \<noteq> 0 \<Longrightarrow> n div 5 = Suc n div 5" by presburger
  show ?case
    unfolding step using IH lt d1 d2
    by (auto simp add: Bullet_tick_exploding_step)
qed

lemma explosion_ends:
  assumes "exploding b" "explosion_timer b = 0" "explosion_index b = 0" "b_alive b"
  shows "\<not> b_alive ((Bullet_tick tx ^^ 15) b)"
proof -
  define c where "c = (Bullet_tick tx ^^ 14) b"
  have s: "exploding c \<and> explosion_timer c = 14 \<and> explosion_index c = 14 div 5 \<and> b_alive c"
    unfolding c_def using explosion_progress[OF assms, of 14 tx] by simp
  have "(Bullet_tick tx ^^ 15) b = Bullet_tick tx c"
    by (simp add: numeral_eq_Suc c_def)
  then show ?thesis using s
    by (simp add: Bullet_tick_exploding_step)
qed

lemma get_rect_center_center:
  "get_rect_center s (center r) =
     Inr \<lparr>rect_x = rect_x r + half (rect_w r) - half (fst s),
          rect_y = rect_y r + half (rect_h r) - half (snd s),
          rect_w = fst s, rect_h = snd s\<rparr>"
  by (simp add: get_rect_center_def set_center_def center_def centerx_def centery_def
        int_from_obj_sint get_rect_def)

lemma trigger_explosion_returns:
  "trigger_explosion tx b =
     Inr (b\<lparr>exploding := True, b_image := explosion_images 0,
            b_rect := \<lparr>rect_x = rect_x (b_rect b) + half (rect_w (b_rect b))
                                  - half (fst (ExplosionPhase1_png tx)),
                       rect_y = rect_y (b_rect b) + half (rect_h (b_rect b))
                                  - half (snd (ExplosionPhase1_png tx)),
                       rect_w = fst (ExplosionPhase1_png tx),
                       rect_h = snd (ExplosionPhase1_png tx)\<rparr>\<rparr>)"
  by (simp add: trigger_explosion_def Let_def get_rect_center_center)

lemma example_bullet_built:
  "Bullet_init example_textures 100 300 False = Inr example_bullet"
  by (simp add: Bullet_init_def example_textures_def example_bullet_def set_center_def
        int_from_obj_def fits_int_def get_rect_def half_def)

lemma example_explosion_built:
  "trigger_explosion example_textures example_bullet = Inr example_explosion"
  by (simp add: trigger_explosion_returns example_textures_def example_bullet_def
        example_explosion_def half_def)

lemma example_explosion_fields:
  "exploding example_explosion" "explosion_timer example_explosion = 0"
  "explosion_index example_explosion = 0" "b_alive example_explosion"
  by (simp_all add: example_explosion_def)

text \<open>
  Claim C2. A bullet that has just entered the exploding state (the flag set, timer and
  frame index still \<open>0\<close>, the bullet in the live set) is removed from the live set by
  the fifteenth call of \<^verbatim>\<open>update()\<close>, and is still in the live set after every
  smaller number of calls. None of these calls, nor any later one, raises.
\<close>

theorem explosion_lasts_15_ticks:
  assumes "exploding b" "explosion_timer b = 0" "explosion_index b = 0" "b_alive b"
  shows "\<not> b_alive ((Bullet_tick tx ^^ 15) b) \<and>
         (\<forall>n < 15. b_alive ((Bullet_tick tx ^^ n) b)) \<and>
         (\<forall>n. returns (Bullet_update tx ((Bullet_tick tx ^^ n) b)))"
  using explosion_ends[OF assms] explosion_progress[OF assms]
    Bullet_update_exploding_returns[OF Bullet_ticks_exploding_keeps[OF assms(1)]]
  by blast

theorem explosion_lasts_15_ticks_witness:
  "trigger_explosion example_textures example_bullet = Inr example_explosion \<and>
   exploding example_explosion \<and> explosion_timer example_explosion = 0 \<and>
   explosion_index example_explosion = 0 \<and> b_alive example_explosion \<and>
   \<not> b_alive ((Bullet_tick example_textures ^^ 15) example_explosion) \<and>
   b_alive ((Bullet_tick example_textures ^^ 14) example_explosion) \<and>
   returns (Bullet_update example_textures ((Bullet_tick example_textures ^^ 14) example_explosion))"
  using explosion_lasts_15_ticks[OF example_explosion_fields, of example_textures]
    example_explosion_fields example_explosion_built by simp

section \<open>From flight to explosion\<close>

lemma Bullet_moved_fields:
  assumes "Bullet_move_fits b"
  shows "get_y (Bullet_moved b) = get_y (b_rect b) + b_speed b"
    and "top (Bullet_moved b) = get_y (b_rect b) + b_speed b"
    and "rect_h (Bullet_moved b) = rect_h (b_rect b)"
proof -
  have "sint (word_of_int (sint (rect_y (b_rect b)) + b_speed b) :: 32 word) =
          sint (rect_y (b_rect b)) + b_speed b"
    using assms unfolding Bullet_move_fits_def get_y_def by (rule sint_word_of_int_fits)
  then show "get_y (Bullet_moved b) = get_y (b_rect b) + b_speed b"
    and "top (Bullet_moved b) = get_y (b_rect b) + b_speed b"
    by (simp_all add: Bullet_moved_def get_y_def top_def del: of_int_add)
  show "rect_h (Bullet_moved b) = rect_h (b_rect b)"
    by (simp add: Bullet_moved_def)
qed

lemma Bullet_update_flying:
  assumes "\<not> exploding b"
  shows "\<not> Bullet_move_fits b \<Longrightarrow> Bullet_update tx b = Inl (TypeError, b)"
    and "Bullet_move_fits b \<Longrightarrow> returns (Bullet_update tx b)"
    and "Bullet_move_fits b \<Longrightarrow> exploding (Bullet_tick tx b) = off_screen (Bullet_moved b)"
    and "b_speed (Bullet_tick tx b) = b_speed b"
    and "Bullet_move_fits b \<Longrightarrow> \<not> off_screen (Bullet_moved b) \<Longrightarrow>
           b_rect (Bullet_tick tx b) = Bullet_moved b"
  using assms
  by (auto simp add: Bullet_update_def Bullet_tick_def state_after_def returns_def
        trigger_explosion_returns Let_def Bullet_moved_def Bullet_move_fits_def off_screen_def
        set_y_def int_from_obj_def)

lemma Bullet_tick_raised:
  assumes "\<not> exploding b" "\<not> Bullet_move_fits b"
  shows "(Bullet_tick tx ^^ n) b = b"
proof (induction n)
  case 0
  then show ?case by simp
next
  case (Suc n)
  have "Bullet_tick tx b = b"
    using Bullet_update_flying(1)[OF assms] by (simp add: Bullet_tick_def state_after_def)
  with Suc show ?case by simp
qed

lemma Bullet_ticks_exploding_mono:
  assumes "exploding ((Bullet_tick tx ^^ i) b)" "i \<le> j"
  shows "exploding ((Bullet_tick tx ^^ j) b)"
proof -
  from assms(2) obtain k where "j = k + i" by (metis le_add_diff_inverse2)
  then show ?thesis
    using Bullet_ticks_exploding_keeps[OF assms(1), where n = k and tx = tx]
    by (simp add: funpow_add)
qed

text \<open>
  While the bullet has not exploded and no call has raised, every call has added the
  speed to \<^verbatim>\<open>rect.y\<close>.
\<close>

lemma Bullet_flight_position:
  "\<not> exploding ((Bullet_tick tx ^^ n) b) \<Longrightarrow>
   (\<And>k. k < n \<Longrightarrow> Bullet_move_fits ((Bullet_tick tx ^^ k) b)) \<Longrightarrow>
     get_y (b_rect ((Bullet_tick tx ^^ n) b)) = get_y (b_rect b) + int n * b_speed b \<and>
     b_speed ((Bullet_tick tx ^^ n) b) = b_speed b"
proof (induction n)
  case 0
  then show ?case by simp
next
  case (Suc n)
  define c where "c = (Bullet_tick tx ^^ n) b"
  have step: "(Bullet_tick tx ^^ Suc n) b = Bullet_tick tx c"
    by (simp add: c_def)
  have nc: "\<not> exploding c"
    using Suc.prems(1) Bullet_ticks_exploding_mono[where i = n and j = "Suc n" and tx = tx and b = b]
    by (auto simp: c_def)
  have fc: "Bullet_move_fits c" using Suc.prems(2)[of n] by (simp add: c_def)
  have IH: "get_y (b_rect c) = get_y (b_rect b) + int n * b_speed b" "b_speed c = b_speed b"
    using Suc.IH nc Suc.prems(2) by (simp_all add: c_def)
  from Suc.prems(1) have "\<not> off_screen (Bullet_moved c)"
    unfolding step using Bullet_update_flying(3)[OF nc fc] by simp
  then have "b_rect (Bullet_tick tx c) = Bullet_moved c" "b_speed (Bullet_tick tx c) = b_speed b"
    using Bullet_update_flying(4,5)[OF nc] fc IH by simp_all
  then show ?case unfolding step using IH Bullet_moved_fields(1)[OF fc]
    by (simp add: algebra_simps)
qed

text \<open>
  A bullet in flight whose speed is not \<open>0\<close> cannot go on for ever: \<^verbatim>\<open>rect.y\<close> is a C
  \<^verbatim>\<open>int\<close>, so after some number of calls the bullet has exploded or the next
  assignment to \<^verbatim>\<open>rect.y\<close> is out of range.
\<close>

lemma Bullet_flight_ends:
  assumes "b_speed b \<noteq> 0"
  shows "\<exists>n. exploding ((Bullet_tick tx ^^ n) b) \<or> \<not> Bullet_move_fits ((Bullet_tick tx ^^ n) b)"
proof (rule ccontr)
  assume "\<not> ?thesis"
  then have never: "\<And>n. \<not> exploding ((Bullet_tick tx ^^ n) b)"
    and fits: "\<And>n. Bullet_move_fits ((Bullet_tick tx ^^ n) b)" by blast+
  define n :: nat where "n = 4294967296"
  define y where "y = get_y (b_rect ((Bullet_tick tx ^^ n) b))"
  have pos: "y = get_y (b_rect b) + int n * b_speed b"
    unfolding y_def using Bullet_flight_position[OF never[of n]] fits by simp
  have b1: "- 2147483648 \<le> y" "y \<le> 2147483647"
    "- 2147483648 \<le> get_y (b_rect b)" "get_y (b_rect b) \<le> 2147483647"
    unfolding y_def get_y_def by (rule sint_bounds)+
  define m where "m = int n * b_speed b"
  have nn: "int n = 4294967296" by (simp add: n_def)
  show False
  proof (cases "b_speed b > 0")
    case True
    then have "int n * 1 \<le> int n * b_speed b"
      by (intro mult_left_mono) simp_all
    then have "4294967296 \<le> m" by (simp add: m_def nn)
    then show False using b1 pos by (simp add: m_def[symmetric])
  next
    case False
    with assms have "b_speed b < 0" by simp
    then have "int n * 1 \<le> int n * (- b_speed b)"
      by (intro mult_left_mono) simp_all
    then have "m \<le> - 4294967296" by (simp add: m_def nn)
    then show False using b1 pos by (simp add: m_def[symmetric])
  qed
qed

text \<open>
  A bullet near the screen stays near the screen while it flies, and its next move is
  within the range of a C \<^verbatim>\<open>int\<close>.
\<close>

lemma near_screen_fits:
  "near_screen b \<Longrightarrow> Bullet_move_fits b"
  unfolding near_screen_def Bullet_move_fits_def fits_int_def by linarith

lemma near_screen_step:
  assumes "near_screen b" "\<not> exploding b" "\<not> exploding (Bullet_tick tx b)"
  shows "near_screen (Bullet_tick tx b)"
proof -
  have f: "Bullet_move_fits b" using assms(1) by (rule near_screen_fits)
  have on: "\<not> off_screen (Bullet_moved b)"
    using assms(3) Bullet_update_flying(3)[OF assms(2) f] by simp
  have r: "b_rect (Bullet_tick tx b) = Bullet_moved b"
    using Bullet_update_flying(5)[OF assms(2) f on] .
  have s: "b_speed (Bullet_tick tx b) = b_speed b"
    using Bullet_update_flying(4)[OF assms(2)] .
  define y where "y = get_y (b_rect b) + b_speed b"
  define h where "h = sint (rect_h (b_rect b))"
  have y1: "get_y (Bullet_moved b) = y" "top (Bullet_moved b) = y"
    "rect_h (Bullet_moved b) = rect_h (b_rect b)"
    using Bullet_moved_fields[OF f] by (simp_all add: y_def)
  have n: "\<bar>b_speed b\<bar> \<le> 1000000000" "0 \<le> h" "h \<le> 1000000000"
    "\<bar>get_y (b_rect b)\<bar> \<le> 1000000000" "b_speed b \<noteq> 0"
    using assms(1) by (simp_all add: near_screen_def h_def)
  have yb: "- 2000000000 \<le> y" "y \<le> 2000000000" using n by (simp_all add: y_def)
  from on y1 have top_in: "y \<le> 600"
    by (simp add: off_screen_def SCREEN_HEIGHT_def)
  have sy: "sint (rect_y (Bullet_moved b)) = y" using y1(1) by (simp add: get_y_def)
  have "fits_int (sint (rect_y (Bullet_moved b)) + sint (rect_h (b_rect b)))"
    unfolding sy using yb top_in n(2,3) by (simp add: fits_int_def h_def)
  then have "sint (rect_y (Bullet_moved b) + rect_h (b_rect b)) = y + h"
    using sint_add_fits[of "rect_y (Bullet_moved b)" "rect_h (b_rect b)"] sy
    by (simp add: h_def)
  then have "bottom (Bullet_moved b) = y + h"
    by (simp add: bottom_def y1(3))
  with on have "0 \<le> y + h"
    by (simp add: off_screen_def)
  then have "\<bar>y\<bar> \<le> 1000000000" using n top_in by linarith
  then show ?thesis
    using n y1 by (simp add: near_screen_def r s h_def)
qed

lemma near_screen_run:
  assumes "near_screen b" "\<not> exploding b"
  shows "exploding ((Bullet_tick tx ^^ n) b) \<or> near_screen ((Bullet_tick tx ^^ n) b)"
proof (induction n)
  case 0
  then show ?case using assms by simp
next
  case (Suc n)
  define c where "c = (Bullet_tick tx ^^ n) b"
  have step: "(Bullet_tick tx ^^ Suc n) b = Bullet_tick tx c" by (simp add: c_def)
  from Suc have IH: "exploding c \<or> near_screen c" by (simp add: c_def)
  show ?case
  proof (cases "exploding c")
    case True
    then show ?thesis unfolding step by (simp add: Bullet_tick_exploding_step(1))
  next
    case False
    with IH have "near_screen c" by simp
    then show ?thesis unfolding step using near_screen_step[OF _ False] by blast
  qed
qed

lemma near_screen_returns:
  assumes "near_screen b" "\<not> exploding b"
  shows "returns (Bullet_update tx ((Bullet_tick tx ^^ n) b))"
proof (cases "exploding ((Bullet_tick tx ^^ n) b)")
  case True
  then show ?thesis by (rule Bullet_update_exploding_returns)
next
  case False
  with near_screen_run[OF assms, where tx = tx and n = n] have "near_screen ((Bullet_tick tx ^^ n) b)" by simp
  then show ?thesis
    using Bullet_update_flying(2)[OF False] near_screen_fits by blast
qed

lemma near_screen_explodes:
  assumes "near_screen b" "\<not> exploding b"
  shows "\<exists>n. exploding ((Bullet_tick tx ^^ n) b)"
proof -
  have "b_speed b \<noteq> 0" using assms(1) by (simp add: near_screen_def)
  from Bullet_flight_ends[OF this, of tx] obtain n where
    n: "exploding ((Bullet_tick tx ^^ n) b) \<or> \<not> Bullet_move_fits ((Bullet_tick tx ^^ n) b)"
    by blast
  then have "exploding ((Bullet_tick tx ^^ n) b)"
    using near_screen_run[OF assms, where tx = tx and n = n] near_screen_fits by blast
  then show ?thesis by blast
qed

lemma Bullet_transition_unique:
  assumes "\<not> exploding ((Bullet_tick tx ^^ i) b)" "exploding ((Bullet_tick tx ^^ Suc i) b)"
    and "\<not> exploding ((Bullet_tick tx ^^ j) b)" "exploding ((Bullet_tick tx ^^ Suc j) b)"
  shows "i = j"
proof (rule ccontr)
  assume "i \<noteq> j"
  then consider "Suc i \<le> j" | "Suc j \<le> i" by linarith
  then show False
  proof cases
    case 1
    then show False
      using Bullet_ticks_exploding_mono[OF assms(2) 1] assms(3) by simp
  next
    case 2
    then show False
      using Bullet_ticks_exploding_mono[OF assms(4) 2] assms(1) by simp
  qed
qed

lemma Bullet_transition_exists:
  assumes "near_screen b" "\<not> exploding b"
  shows "\<exists>i. \<not> exploding ((Bullet_tick tx ^^ i) b) \<and> exploding ((Bullet_tick tx ^^ Suc i) b)"
proof -
  define P where "P = (\<lambda>n. exploding ((Bullet_tick tx ^^ n) b))"
  from near_screen_explodes[OF assms, of tx] obtain n where "P n" by (auto simp: P_def)
  define k where "k = (LEAST n. P n)"
  have Pk: "P k" unfolding k_def using \<open>P n\<close> by (rule LeastI)
  have "\<not> P 0" using assms(2) by (simp add: P_def)
  with Pk obtain i where ki: "k = Suc i" by (cases k) auto
  have "\<not> P i" using not_less_Least[of i P] ki by (simp add: k_def)
  with Pk ki show ?thesis by (auto simp: P_def)
qed

lemma example_bullet_fields:
  "\<not> exploding example_bullet" "near_screen example_bullet" "Bullet_move_fits example_bullet"
  "\<not> off_screen (Bullet_moved example_bullet)"
  by (simp_all add: example_bullet_def near_screen_def get_y_def Bullet_move_fits_def
        fits_int_def off_screen_def Bullet_moved_def bottom_def top_def SCREEN_HEIGHT_def)

text \<open>
  Claim C1, as the code has it. Once a bullet is exploding, it is exploding after every
  further number of \<^verbatim>\<open>update()\<close> calls, and those calls return. For a flying bullet,
  \<^verbatim>\<open>update()\<close> returns when \<^verbatim>\<open>rect.y + speed\<close> is within the range of a C \<^verbatim>\<open>int\<close>, and
  the bullet is then exploding exactly when the moved rectangle lies wholly outside the
  screen vertically (\<open>bottom < 0\<close> or \<open>top > SCREEN_HEIGHT\<close>, as the rectangle computes
  them); otherwise the call raises \<^verbatim>\<open>TypeError\<close>, the bullet is unchanged, and it
  stays flying through every further call. In a run of calls the change from flying to
  exploding happens at no more than one call. A flying bullet whose speed is not \<open>0\<close>
  explodes after some number of calls, or one of its calls raises. For a flying bullet
  near the screen no call raises and the change happens at exactly one call.
\<close>

theorem Bullet_explodes_once:
  "(exploding b \<longrightarrow>
      (\<forall>n. exploding ((Bullet_tick tx ^^ n) b)) \<and> returns (Bullet_update tx b)) \<and>
   (\<not> exploding b \<and> Bullet_move_fits b \<longrightarrow>
      returns (Bullet_update tx b) \<and>
      (exploding (Bullet_tick tx b) \<longleftrightarrow>
         bottom (Bullet_moved b) < 0 \<or> top (Bullet_moved b) > SCREEN_HEIGHT)) \<and>
   (\<not> exploding b \<and> \<not> Bullet_move_fits b \<longrightarrow>
      Bullet_update tx b = Inl (TypeError, b) \<and> (\<forall>n. (Bullet_tick tx ^^ n) b = b)) \<and>
   (\<forall>i j. \<not> exploding ((Bullet_tick tx ^^ i) b) \<and> exploding ((Bullet_tick tx ^^ Suc i) b) \<and>
          \<not> exploding ((Bullet_tick tx ^^ j) b) \<and> exploding ((Bullet_tick tx ^^ Suc j) b)
          \<longrightarrow> i = j) \<and>
   (\<not> exploding b \<and> b_speed b \<noteq> 0 \<longrightarrow>
      (\<exists>n. exploding ((Bullet_tick tx ^^ n) b) \<or>
           \<not> returns (Bullet_update tx ((Bullet_tick tx ^^ n) b)))) \<and>
   (\<not> exploding b \<and> near_screen b \<longrightarrow>
      (\<forall>n. returns (Bullet_update tx ((Bullet_tick tx ^^ n) b))) \<and>
      (\<exists>!i. \<not> exploding ((Bullet_tick tx ^^ i) b) \<and>
            exploding ((Bullet_tick tx ^^ Suc i) b)))"
proof (intro conjI impI allI)
  fix n assume "exploding b"
  then show "exploding ((Bullet_tick tx ^^ n) b)"
    by (rule Bullet_ticks_exploding_keeps)
next
  assume "exploding b"
  then show "returns (Bullet_update tx b)" by (rule Bullet_update_exploding_returns)
next
  assume "\<not> exploding b \<and> Bullet_move_fits b"
  then show "returns (Bullet_update tx b)" using Bullet_update_flying(2) by blast
next
  assume "\<not> exploding b \<and> Bullet_move_fits b"
  then show "exploding (Bullet_tick tx b) \<longleftrightarrow>
         bottom (Bullet_moved b) < 0 \<or> top (Bullet_moved b) > SCREEN_HEIGHT"
    by (simp add: Bullet_update_flying(3) off_screen_def)
next
  assume "\<not> exploding b \<and> \<not> Bullet_move_fits b"
  then show "Bullet_update tx b = Inl (TypeError, b)" using Bullet_update_flying(1) by blast
next
  fix n assume "\<not> exploding b \<and> \<not> Bullet_move_fits b"
  then show "(Bullet_tick tx ^^ n) b = b" using Bullet_tick_raised by blast
next
  fix i j
  assume "\<not> exploding ((Bullet_tick tx ^^ i) b) \<and> exploding ((Bullet_tick tx ^^ Suc i) b) \<and>
          \<not> exploding ((Bullet_tick tx ^^ j) b) \<and> exploding ((Bullet_tick tx ^^ Suc j) b)"
  then show "i = j" using Bullet_transition_unique[where tx = tx and b = b and i = i and j = j] by blast
next
  assume a: "\<not> exploding b \<and> b_speed b \<noteq> 0"
  then obtain n where n: "exploding ((Bullet_tick tx ^^ n) b) \<or>
      \<not> Bullet_move_fits ((Bullet_tick tx ^^ n) b)"
    using Bullet_flight_ends[of b tx] by blast
  have "exploding ((Bullet_tick tx ^^ n) b) \<or>
         \<not> returns (Bullet_update tx ((Bullet_tick tx ^^ n) b))"
  proof (cases "exploding ((Bullet_tick tx ^^ n) b)")
    case True
    then show ?thesis by simp
  next
    case False
    with n have "\<not> Bullet_move_fits ((Bullet_tick tx ^^ n) b)" by simp
    then show ?thesis using Bullet_update_flying(1)[OF False] by (simp add: returns_def)
  qed
  then show "\<exists>n. exploding ((Bullet_tick tx ^^ n) b) \<or>
           \<not> returns (Bullet_update tx ((Bullet_tick tx ^^ n) b))" by blast
next
  fix n assume "\<not> exploding b \<and> near_screen b"
  then show "returns (Bullet_update tx ((Bullet_tick tx ^^ n) b))"
    using near_screen_returns by blast
next
  assume a: "\<not> exploding b \<and> near_screen b"
  then obtain i where i: "\<not> exploding ((Bullet_tick tx ^^ i) b)"
    "exploding ((Bullet_tick tx ^^ Suc i) b)"
    using Bullet_transition_exists[where b = b and tx = tx] by blast
  show "\<exists>!i. \<not> exploding ((Bullet_tick tx ^^ i) b) \<and>
            exploding ((Bullet_tick tx ^^ Suc i) b)"
  proof (rule ex1I[of _ i])
    show "\<not> exploding ((Bullet_tick tx ^^ i) b) \<and> exploding ((Bullet_tick tx ^^ Suc i) b)"
      using i by simp
  next
    fix j
    assume "\<not> exploding ((Bullet_tick tx ^^ j) b) \<and> exploding ((Bullet_tick tx ^^ Suc j) b)"
    then show "j = i" using Bullet_transition_unique[where tx = tx and b = b and i = j and j = i] i by blast
  qed
qed

theorem Bullet_explodes_once_witness:
  "Bullet_init example_textures 100 300 False = Inr example_bullet \<and>
   exploding example_explosion \<and>
   (\<forall>n. exploding ((Bullet_tick example_textures ^^ n) example_explosion)) \<and>
   \<not> exploding example_bullet \<and> Bullet_move_fits example_bullet \<and> near_screen example_bullet \<and>
   returns (Bullet_update example_textures example_bullet) \<and>
   \<not> exploding (Bullet_tick example_textures example_bullet) \<and>
   (\<forall>n. returns (Bullet_update example_textures ((Bullet_tick example_textures ^^ n) example_bullet))) \<and>
   (\<exists>!i. \<not> exploding ((Bullet_tick example_textures ^^ i) example_bullet) \<and>
         exploding ((Bullet_tick example_textures ^^ Suc i) example_bullet)) \<and>
   \<not> exploding example_far_bullet \<and> \<not> Bullet_move_fits example_far_bullet \<and>
   Bullet_update example_textures example_far_bullet = Inl (TypeError, example_far_bullet)"
proof -
  note E = Bullet_explodes_once[where b = example_explosion and tx = example_textures]
  note B = Bullet_explodes_once[where b = example_bullet and tx = example_textures]
  note F = Bullet_explodes_once[where b = example_far_bullet and tx = example_textures]
  have inside: "\<not> (bottom (Bullet_moved example_bullet) < 0 \<or>
                   top (Bullet_moved example_bullet) > SCREEN_HEIGHT)"
    using example_bullet_fields(4) by (simp add: off_screen_def)
  have far: "\<not> exploding example_far_bullet" "\<not> Bullet_move_fits example_far_bullet"
    by (simp_all add: example_far_bullet_def Bullet_move_fits_def get_y_def fits_int_def)
  have e: "\<forall>n. exploding ((Bullet_tick example_textures ^^ n) example_explosion)"
    using E[THEN conjunct1] example_explosion_fields(1) by simp
  have b2: "returns (Bullet_update example_textures example_bullet)"
    "\<not> exploding (Bullet_tick example_textures example_bullet)"
    using B[THEN conjunct2, THEN conjunct1] example_bullet_fields(1,3) inside by simp_all
  have b6: "\<forall>n. returns (Bullet_update example_textures
                  ((Bullet_tick example_textures ^^ n) example_bullet))"
    "\<exists>!i. \<not> exploding ((Bullet_tick example_textures ^^ i) example_bullet) \<and>
         exploding ((Bullet_tick example_textures ^^ Suc i) example_bullet)"
    using B[THEN conjunct2, THEN conjunct2, THEN conjunct2, THEN conjunct2, THEN conjunct2]
      example_bullet_fields(1,2) by simp_all
  have f3: "Bullet_update example_textures example_far_bullet = Inl (TypeError, example_far_bullet)"
    using F[THEN conjunct2, THEN conjunct2, THEN conjunct1] far by simp
  show ?thesis
    using example_bullet_built example_explosion_fields(1) e example_bullet_fields(1,2,3)
      b2 b6 far f3
    by (intro conjI) assumption+
qed

text \<open>
  The claim as the specification words it puts the trigger at \<open>top < 0\<close> or
  \<open>bottom > screen_height\<close>. The bullet that \<^verbatim>\<open>Bullet(100, 5)\<close> builds is at \<open>top = -5\<close>,
  \<open>bottom = 5\<close> after one call, which returns, and is still flying. The claim also has
  the change happen once for every bullet: the bullet that
  \<^verbatim>\<open>Bullet(100, -2147483640)\<close> builds is flying, its first call raises \<^verbatim>\<open>TypeError\<close>
  and leaves it as it is.
\<close>

theorem Bullet_trigger_counterexample:
  "Bullet_init example_textures 100 5 False = Inr example_low_bullet \<and>
   \<not> exploding example_low_bullet \<and>
   returns (Bullet_update example_textures example_low_bullet) \<and>
   top (b_rect (Bullet_tick example_textures example_low_bullet)) = - 5 \<and>
   bottom (b_rect (Bullet_tick example_textures example_low_bullet)) = 5 \<and>
   \<not> exploding (Bullet_tick example_textures example_low_bullet) \<and>
   Bullet_init example_textures 100 (- 2147483640) False = Inr example_far_bullet \<and>
   \<not> exploding example_far_bullet \<and>
   Bullet_update example_textures example_far_bullet = Inl (TypeError, example_far_bullet)"
  by (simp add: example_low_bullet_def example_far_bullet_def example_textures_def
        Bullet_init_def Bullet_update_def Bullet_tick_def state_after_def returns_def
        trigger_explosion_returns Let_def bottom_def top_def set_center_def set_y_def get_y_def
        int_from_obj_def fits_int_def get_rect_def half_def SCREEN_HEIGHT_def)

section \<open>Damage to a wall\<close>

lemma Wall_init_built:
  "Wall_init tx x y = Inr wl \<Longrightarrow>
     health wl = 25 \<and> state_index wl = 0 \<and> w_image wl = 0 \<and> w_alive wl"
  by (auto simp add: Wall_init_def split: sum.splits)

lemma Wall_init_returns:
  "returns (Wall_init tx x y) \<longleftrightarrow> fits_int x \<and> fits_int y"
  by (simp add: Wall_init_def get_rect_center_def set_center_def int_from_obj_def returns_def)

lemma example_wall_built:
  "Wall_init example_textures 400 500 = Inr example_wall"
  by (simp add: Wall_init_def example_textures_def example_wall_def get_rect_center_def
        set_center_def int_from_obj_def fits_int_def get_rect_def half_def)

lemma Wall_take_damage_fields:
  "health (Wall_take_damage wl) = health wl - 1"
  "state_index (Wall_take_damage wl) =
     (if health wl - 1 \<le> 6 \<and> state_index wl < 2 then state_index wl + 1 else state_index wl)"
  "w_alive (Wall_take_damage wl) = (w_alive wl \<and> 0 < health wl - 1)"
  "w_image (Wall_take_damage wl) =
     (if health wl - 1 \<le> 6 \<and> state_index wl < 2 then state_index wl + 1 else w_image wl)"
  "w_rect (Wall_take_damage wl) = w_rect wl"
  by (auto simp add: Wall_take_damage_def Wall_kill_def Let_def)

lemma Wall_damage_health:
  "health ((Wall_take_damage ^^ n) wl) = health wl - int n"
  by (induction n) (simp_all add: Wall_take_damage_fields)

lemma Wall_damage_alive:
  "w_alive ((Wall_take_damage ^^ n) wl) = (w_alive wl \<and> (n = 0 \<or> int n < health wl))"
proof (induction n)
  case 0
  then show ?case by simp
next
  case (Suc n)
  have "w_alive ((Wall_take_damage ^^ Suc n) wl) =
          (w_alive ((Wall_take_damage ^^ n) wl) \<and> 0 < health ((Wall_take_damage ^^ n) wl) - 1)"
    by (simp add: Wall_take_damage_fields)
  also have "\<dots> = ((w_alive wl \<and> (n = 0 \<or> int n < health wl)) \<and> 0 < health wl - int n - 1)"
    by (simp only: Suc.IH Wall_damage_health)
  also have "\<dots> = (w_alive wl \<and> (Suc n = 0 \<or> int (Suc n) < health wl))"
    by auto
  finally show ?case .
qed

lemma Wall_damage_state_bound:
  "state_index wl \<le> 2 \<Longrightarrow> state_index ((Wall_take_damage ^^ n) wl) \<le> 2"
  by (induction n) (simp_all add: Wall_take_damage_fields)

text \<open>
  Claim C3, as the code has it. Every \<^verbatim>\<open>take_damage()\<close> call lowers health by exactly
  \<open>1\<close>; a wall with positive health has health at least \<open>0\<close> afterwards; a wall in the
  live set stays in it exactly when its health after the call is above \<open>0\<close>. For a
  wall that the constructor has built, health after \<open>n\<close> calls is \<open>25 - n\<close>, the wall
  is in the live set exactly while \<open>n < 25\<close>, and health is not negative for \<open>n \<le> 25\<close>.
  The constructor builds a wall exactly when both coordinates of the centre are within
  the range of a C \<^verbatim>\<open>int\<close>.
\<close>

theorem Wall_take_damage_health:
  "health (Wall_take_damage wl) = health wl - 1 \<and>
   (0 < health wl \<longrightarrow> 0 \<le> health (Wall_take_damage wl)) \<and>
   (w_alive wl \<longrightarrow> (w_alive (Wall_take_damage wl) \<longleftrightarrow> \<not> health (Wall_take_damage wl) \<le> 0)) \<and>
   (Wall_init tx x y = Inr w0 \<longrightarrow>
      health ((Wall_take_damage ^^ n) w0) = 25 - int n \<and>
      (w_alive ((Wall_take_damage ^^ n) w0) \<longleftrightarrow> n < 25) \<and>
      (n \<le> 25 \<longrightarrow> 0 \<le> health ((Wall_take_damage ^^ n) w0))) \<and>
   (returns (Wall_init tx x y) \<longleftrightarrow> fits_int x \<and> fits_int y)"
proof -
  have "Wall_init tx x y = Inr w0 \<Longrightarrow>
      health ((Wall_take_damage ^^ n) w0) = 25 - int n \<and>
      (w_alive ((Wall_take_damage ^^ n) w0) \<longleftrightarrow> n < 25) \<and>
      (n \<le> 25 \<longrightarrow> 0 \<le> health ((Wall_take_damage ^^ n) w0))"
    using Wall_init_built[of tx x y w0]
    by (auto simp add: Wall_damage_health Wall_damage_alive)
  then show ?thesis
    using Wall_init_returns[of tx x y]
    by (auto simp add: Wall_take_damage_fields)
qed

theorem Wall_take_damage_health_witness:
  "Wall_init example_textures 400 500 = Inr example_wall \<and>
   0 < health example_wall \<and> 0 \<le> health (Wall_take_damage example_wall) \<and>
   w_alive example_wall \<and> w_alive (Wall_take_damage example_wall) \<and>
   \<not> health (Wall_take_damage example_wall) \<le> 0 \<and>
   (25::nat) \<le> 25 \<and> 0 \<le> health ((Wall_take_damage ^^ 25) example_wall) \<and>
   \<not> w_alive ((Wall_take_damage ^^ 25) example_wall)"
proof -
  have h: "health example_wall = 25" "w_alive example_wall"
    by (simp_all add: example_wall_def)
  show ?thesis
    using Wall_take_damage_health[where wl = example_wall and n = 25 and tx = example_textures
        and x = 400 and y = 500 and ?w0.0 = example_wall] h example_wall_built
    by simp
qed

text \<open>
  Health is not clamped: the twenty-sixth call on the wall that \<^verbatim>\<open>Wall(400, 500)\<close>
  builds leaves health at \<open>-1\<close>.
\<close>

theorem Wall_health_counterexample:
  "Wall_init example_textures 400 500 = Inr example_wall \<and>
   health ((Wall_take_damage ^^ 26) example_wall) = - 1"
  by (simp add: Wall_damage_health example_wall_built) (simp add: example_wall_def)

text \<open>
  Claim C4 fails on the code: the constructor sets health to \<open>25\<close> and \<^verbatim>\<open>reset()\<close>
  sets it to \<open>10\<close>, after any number of \<^verbatim>\<open>take_damage()\<close> calls. \<^verbatim>\<open>reset()\<close> does
  restore \<open>state_index\<close> to \<open>0\<close> and reloads the first image.
\<close>

theorem Wall_reset_health:
  "(Wall_init tx x y = Inr w0 \<longrightarrow>
      health w0 = 25 \<and>
      health (Wall_reset w0) = 10 \<and>
      health (Wall_reset ((Wall_take_damage ^^ n) w0)) = 10) \<and>
   state_index (Wall_reset wl) = 0 \<and> w_image (Wall_reset wl) = 0"
  using Wall_init_built[of tx x y w0]
  by (simp add: Wall_reset_def Let_def)

theorem Wall_reset_health_witness:
  "Wall_init example_textures 400 500 = Inr example_wall \<and>
   health example_wall = 25 \<and>
   health (Wall_reset example_wall) = 10 \<and>
   health (Wall_reset ((Wall_take_damage ^^ 3) example_wall)) = 10"
  using Wall_reset_health[where tx = example_textures and x = 400 and y = 500
      and ?w0.0 = example_wall and n = 3] example_wall_built
  by simp

text \<open>In the first copy of the class the two constants agree.\<close>

lemma Wall_first_copy_reset:
  "Wall_init_first_copy tx x y = Inr w0 \<Longrightarrow>
     health (Wall_reset_first_copy wl) = health w0"
  by (auto simp add: Wall_init_first_copy_def Wall_reset_first_copy_def Let_def
        split: sum.splits)

text \<open>
  Claim C9. For a wall whose \<open>state_index\<close> is at most \<open>2\<close>, after every number of
  \<^verbatim>\<open>take_damage()\<close> calls \<open>state_index\<close> is still at most \<open>2\<close>; the next call does
  not lower it and raises it by at most \<open>1\<close>; it raises it exactly when health after
  that call is at most \<open>6\<close> and \<open>state_index\<close> was below \<open>2\<close>; and \<^verbatim>\<open>reset()\<close> puts
  it back to \<open>0\<close>.
\<close>

theorem Wall_state_index_steps:
  assumes "state_index wl \<le> 2"
  shows "state_index ((Wall_take_damage ^^ n) wl) \<le> 2 \<and>
         state_index ((Wall_take_damage ^^ n) wl) \<le> state_index ((Wall_take_damage ^^ Suc n) wl) \<and>
         state_index ((Wall_take_damage ^^ Suc n) wl) \<le> state_index ((Wall_take_damage ^^ n) wl) + 1 \<and>
         (state_index ((Wall_take_damage ^^ Suc n) wl) = state_index ((Wall_take_damage ^^ n) wl) + 1
            \<longleftrightarrow> health ((Wall_take_damage ^^ Suc n) wl) \<le> 6 \<and>
                state_index ((Wall_take_damage ^^ n) wl) < 2) \<and>
         state_index (Wall_reset ((Wall_take_damage ^^ n) wl)) = 0"
  using Wall_damage_state_bound[OF assms, of n]
  by (auto simp add: Wall_take_damage_fields Wall_reset_def Let_def)

theorem Wall_state_index_steps_witness:
  "Wall_init example_textures 400 500 = Inr example_wall \<and>
   state_index example_wall \<le> 2 \<and>
   state_index ((Wall_take_damage ^^ 19) example_wall) \<le> 2 \<and>
   state_index ((Wall_take_damage ^^ 19) example_wall)
     \<le> state_index ((Wall_take_damage ^^ Suc 19) example_wall) \<and>
   health ((Wall_take_damage ^^ Suc 19) example_wall) \<le> 6"
proof -
  have s: "state_index example_wall \<le> 2"
    by (simp add: example_wall_def)
  have h: "health ((Wall_take_damage ^^ Suc 19) example_wall) \<le> 6"
    unfolding Wall_damage_health by (simp add: example_wall_def)
  show ?thesis
    using Wall_state_index_steps[OF s, of 19] s h example_wall_built by blast
qed

section \<open>The lives of a player\<close>

lemma Player_update_lives:
  "lives (state_after (Player_update keys p)) = lives p"
  by (auto simp add: Player_update_def state_after_def set_x_def set_left_def set_right_def
        int_from_obj_def split: sum.splits)

lemma Player_call_lives:
  assumes "nonneg_damage c" "0 \<le> lives p" "lives p \<le> 3"
  shows "0 \<le> lives (state_after (Player_call c p)) \<and>
         lives (state_after (Player_call c p)) \<le> lives p"
proof (cases c)
  case (Update keys)
  then show ?thesis using assms by (simp add: Player_update_lives)
next
  case (TakeDamage amount)
  then show ?thesis using assms
    by (simp add: nonneg_damage_def Player_take_damage_def state_after_def)
next
  case Heal
  then show ?thesis using assms by (simp add: state_after_def)
qed

lemma Player_calls_append:
  "Player_calls (cs @ ds) p = Player_calls ds (Player_calls cs p)"
  by (induction cs arbitrary: p) simp_all

lemma Player_calls_lives:
  assumes "list_all nonneg_damage cs" "0 \<le> lives p" "lives p \<le> 3"
  shows "0 \<le> lives (Player_calls cs p) \<and> lives (Player_calls cs p) \<le> lives p"
  using assms
proof (induction cs arbitrary: p)
  case Nil
  then show ?case by simp
next
  case (Cons c cs)
  from Cons.prems have c: "nonneg_damage c" and cs: "list_all nonneg_damage cs" by simp_all
  define q where "q = state_after (Player_call c p)"
  have step: "0 \<le> lives q" "lives q \<le> lives p"
    using Player_call_lives[OF c Cons.prems(2,3)] by (simp_all add: q_def)
  then have "lives q \<le> 3" using Cons.prems(3) by linarith
  from Cons.IH[OF cs step(1) this] step show ?case by (simp add: q_def)
qed

lemma Player_init_built:
  "Player_init tx sw sh idx lk rk = Inr p0 \<Longrightarrow> lives p0 = 3 \<and> p_speed p0 = 5"
  by (auto simp add: Player_init_def split: sum.splits)

lemma example_player_built:
  "Player_init example_textures 800 600 1 K_a K_d = Inr example_player"
  by (simp add: Player_init_def example_textures_def example_player_def set_center_def
        int_from_obj_def fits_int_def get_rect_def half_def)

text \<open>
  \<^verbatim>\<open>heal\<close> of the first copy sets the lives to \<open>1\<close> when they are \<open>3\<close> and to \<open>0\<close>
  otherwise.
\<close>

lemma Player_heal_first_copy_lives:
  "lives (Player_heal_first_copy p) = (if lives p = 3 then 1 else 0)"
  by (simp add: Player_heal_first_copy_def py_bool_def)

text \<open>
  Claim C5, as the code has it. Take any sequence of \<^verbatim>\<open>update(keys)\<close>,
  \<^verbatim>\<open>take_damage(amount)\<close> and \<^verbatim>\<open>heal()\<close> calls, made in order on a player that the
  constructor has built, in which no \<open>amount\<close> is negative. The lives start at \<open>3\<close>;
  at every call of the sequence the lives before it are at most \<open>3\<close>, and the lives after it are at least
  \<open>0\<close> and no more than the lives before it, whether the call returned or raised. The
  class that the module exports has no \<^verbatim>\<open>heal\<close>: on every player that call raises
  \<^verbatim>\<open>AttributeError\<close> and leaves the player as it was.
\<close>

theorem Player_lives_in_range:
  assumes "list_all nonneg_damage cs" "k < length cs"
    and "Player_init tx sw sh idx lk rk = Inr p0"
  shows "lives p0 = 3 \<and>
         0 \<le> lives (Player_calls (take (Suc k) cs) p0) \<and>
         lives (Player_calls (take (Suc k) cs) p0) \<le> lives (Player_calls (take k cs) p0) \<and>
         lives (Player_calls (take k cs) p0) \<le> 3 \<and>
         Player_call Heal p = Inl (AttributeError, p)"
proof -
  define q where "q = Player_calls (take k cs) p0"
  have l0: "0 \<le> lives p0" "lives p0 \<le> 3"
    using Player_init_built[OF assms(3)] by simp_all
  have "list_all nonneg_damage (take k cs)"
    using assms(1) by (auto simp: list_all_iff dest: in_set_takeD)
  from Player_calls_lives[OF this l0] l0 have q: "0 \<le> lives q" "lives q \<le> 3"
    unfolding q_def by linarith+
  have c: "nonneg_damage (cs ! k)" using assms by (simp add: list_all_length)
  have "Player_calls (take (Suc k) cs) p0 = state_after (Player_call (cs ! k) q)"
    using assms(2) by (simp add: take_Suc_conv_app_nth Player_calls_append q_def)
  then show ?thesis
    using Player_call_lives[OF c q] q Player_init_built[OF assms(3)]
    unfolding q_def[symmetric] by simp
qed

theorem Player_lives_in_range_witness:
  "Player_init example_textures 800 600 1 K_a K_d = Inr example_player \<and>
   list_all nonneg_damage [Update no_keys, TakeDamage 1, Heal, TakeDamage 5] \<and>
   (2::nat) < length [Update no_keys, TakeDamage 1, Heal, TakeDamage 5] \<and>
   lives (Player_calls (take (Suc 2) [Update no_keys, TakeDamage 1, Heal, TakeDamage 5])
            example_player)
     \<le> lives (Player_calls (take 2 [Update no_keys, TakeDamage 1, Heal, TakeDamage 5])
                 example_player) \<and>
   lives (Player_calls (take 2 [Update no_keys, TakeDamage 1, Heal, TakeDamage 5])
            example_player) = 2 \<and>
   Player_call Heal example_player = Inl (AttributeError, example_player)"
proof -
  have a: "list_all nonneg_damage [Update no_keys, TakeDamage 1, Heal, TakeDamage 5]"
    by (simp add: nonneg_damage_def)
  have b: "(2::nat) < length [Update no_keys, TakeDamage 1, Heal, TakeDamage 5]"
    by simp
  have c: "lives (Player_calls (take 2 [Update no_keys, TakeDamage 1, Heal, TakeDamage 5])
            example_player) = 2"
    by (simp add: numeral_2_eq_2 Player_update_lives Player_take_damage_def state_after_Inr)
       (simp add: example_player_def)
  show ?thesis
    using Player_lives_in_range[OF a b example_player_built, where p = example_player]
      a b c example_player_built
    by blast
qed

text \<open>
  A negative amount of damage raises the lives above \<open>3\<close>: \<^verbatim>\<open>take_damage(-1)\<close> on the
  player that \<^verbatim>\<open>Player(800, 600)\<close> builds.
\<close>

theorem Player_lives_counterexample:
  "Player_init example_textures 800 600 1 K_a K_d = Inr example_player \<and>
   Player_call (TakeDamage (- 1)) example_player = Inr (example_player\<lparr>lives := 4\<rparr>) \<and>
   lives (Player_calls [TakeDamage (- 1)] example_player) = 4"
  by (simp add: example_player_built Player_take_damage_def state_after_def)
     (simp add: example_player_def)

section \<open>The position of a player\<close>

lemma Player_update_returns:
  assumes "Player_moves_fit keys p"
  shows "Player_update keys p = Inr (p\<lparr>p_rect := Player_clamped (Player_moved keys p)\<rparr>)"
proof -
  define x where "x = get_x (p_rect p)"
  define s where "s = p_speed p"
  define r1 where "r1 = (if keys (left_key p) then (p_rect p)\<lparr>rect_x := word_of_int (x - s)\<rparr>
                         else p_rect p)"
  have x0: "word_of_int x = rect_x (p_rect p)" by (simp add: x_def get_x_def)
  have f1: "keys (left_key p) \<Longrightarrow> fits_int (x - s)"
    using assms by (simp add: Player_moves_fit_def x_def s_def)
  have s1: "(if keys (left_key p) then set_x (get_x (p_rect p) - p_speed p) (p_rect p)
             else Inr (p_rect p)) = Inr r1"
    using f1 by (simp add: set_x_cases r1_def x_def s_def)
  have g1: "get_x r1 = (if keys (left_key p) then x - s else x)"
    using f1 by (simp add: r1_def get_x_moved x_def del: of_int_diff of_int_add)
  define r2 where "r2 = (if keys (right_key p) then r1\<lparr>rect_x := word_of_int (get_x r1 + s)\<rparr>
                         else r1)"
  have fx: "fits_int (get_x (p_rect p))" by (simp add: get_x_def fits_sint)
  have f2: "keys (right_key p) \<Longrightarrow> fits_int (get_x r1 + s)"
    using assms fx unfolding g1
    by (auto simp add: Player_moves_fit_def x_def s_def split: if_splits)
  have s2: "(if keys (right_key p) then set_x (get_x r1 + p_speed p) r1 else Inr r1) = Inr r2"
    using f2 by (simp add: set_x_cases r2_def s_def)
  have "r2 = (if keys (right_key p)
              then r1\<lparr>rect_x := word_of_int ((if keys (left_key p) then x - s else x) + s)\<rparr>
              else r1)"
    unfolding r2_def g1 ..
  then have m: "r2 = Player_moved keys p"
    unfolding r1_def Player_moved_def x_def[symmetric] s_def[symmetric]
    using x0 by (cases "p_rect p") auto
  show ?thesis
    unfolding Player_update_def s1 sum.case s2
    by (simp add: m Player_clamped_def set_left_0 set_right_SCREEN_WIDTH)
qed

lemma Player_update_raises:
  assumes "\<not> Player_moves_fit keys p"
  shows "\<not> returns (Player_update keys p)"
proof -
  define x where "x = get_x (p_rect p)"
  define s where "s = p_speed p"
  show ?thesis
  proof (cases "keys (left_key p) \<and> \<not> fits_int (x - s)")
    case True
    then show ?thesis
      by (simp add: Player_update_def set_x_cases returns_def x_def s_def)
  next
    case False
    define r1 where "r1 = (if keys (left_key p) then (p_rect p)\<lparr>rect_x := word_of_int (x - s)\<rparr>
                           else p_rect p)"
    have s1: "(if keys (left_key p) then set_x (get_x (p_rect p) - p_speed p) (p_rect p)
               else Inr (p_rect p)) = Inr r1"
      using False by (auto simp add: set_x_cases r1_def x_def s_def)
    have g1: "get_x r1 = (if keys (left_key p) then x - s else x)"
      using False by (auto simp add: r1_def get_x_moved x_def simp del: of_int_diff of_int_add)
    from assms False have "keys (right_key p)" "\<not> fits_int (get_x r1 + s)"
      unfolding g1 by (auto simp add: Player_moves_fit_def x_def s_def split: if_splits)
    then show ?thesis
      unfolding Player_update_def s1 sum.case
      by (simp add: set_x_cases returns_def s_def)
  qed
qed









section \<open>The constant that a player is clamped to\<close>

lemma Player_init_cases:
  "Player_init tx sw sh idx lk rk =
     (if fits_int (sw div 2) \<and> fits_int (sh - 50)
      then Inr \<lparr>index = idx, left_key = lk, right_key = rk, lives = 3,
                p_rect = \<lparr>rect_x = word_of_int (sw div 2) - half (fst (Player_png tx)),
                          rect_y = word_of_int (sh - 50) - half (snd (Player_png tx)),
                          rect_w = fst (Player_png tx),
                          rect_h = snd (Player_png tx)\<rparr>,
                p_speed = 5\<rparr>
      else Inl TypeError)"
  by (simp add: Player_init_def set_center_def int_from_obj_def get_rect_def
        del: of_int_diff)

lemma Player_init_center:
  assumes "Player_init tx sw sh idx lk rk = Inr p0"
  shows "center (p_rect p0) = (sw div 2, sh - 50)"
proof -
  from assms have f: "fits_int (sw div 2)" "fits_int (sh - 50)"
    and p: "p_rect p0 = \<lparr>rect_x = word_of_int (sw div 2) - half (fst (Player_png tx)),
                          rect_y = word_of_int (sh - 50) - half (snd (Player_png tx)),
                          rect_w = fst (Player_png tx),
                          rect_h = snd (Player_png tx)\<rparr>"
    unfolding Player_init_cases by (auto split: if_splits)
  show ?thesis
    unfolding p center_def centerx_def centery_def
    using sint_word_of_int_fits[OF f(1)] sint_word_of_int_fits[OF f(2)]
    by (simp del: of_int_diff)
qed

lemma Player_clamped_right:
  assumes "0 \<le> left r" "SCREEN_WIDTH < right r"
  shows "right (Player_clamped r) = SCREEN_WIDTH"
  using assms by (simp add: Player_clamped_def right_def SCREEN_WIDTH_def)

lemma Player_clamped_wrapped:
  assumes "0 \<le> left r" "0 \<le> sint (rect_w r)" "2147483647 < left r + sint (rect_w r)"
  shows "Player_clamped r = r"
proof -
  have "right r = left r + sint (rect_w r) - 4294967296"
    using assms(3) sint_add_wraps[of "rect_x r" "rect_w r"] by (simp add: right_def left_def)
  moreover have "left r \<le> 2147483647" "sint (rect_w r) \<le> 2147483647"
    unfolding left_def by (rule sint_bounds)+
  ultimately have "right r < 0" by linarith
  then show ?thesis using assms(1) by (simp add: Player_clamped_def SCREEN_WIDTH_def)
qed

lemma wide_screen_player_built:
  "Player_init example_textures 2000 600 1 K_a K_d = Inr wide_screen_player"
  by (simp add: Player_init_def example_textures_def wide_screen_player_def set_center_def
        int_from_obj_def fits_int_def get_rect_def half_def)

lemma far_player_built:
  "Player_init example_textures 4294967260 600 1 K_a K_d = Inr far_player"
  by (simp add: Player_init_def example_textures_def far_player_def set_center_def
        int_from_obj_def fits_int_def get_rect_def half_def)

lemma wide_screen_player_fields:
  "Player_moves_fit no_keys wide_screen_player"
  "Player_moved no_keys wide_screen_player = p_rect wide_screen_player"
  "left (p_rect wide_screen_player) = 975"
  "right (p_rect wide_screen_player) = 1025"
  by (simp_all add: Player_moves_fit_def Player_moved_def no_keys_def wide_screen_player_def
        get_x_def left_def right_def)

text \<open>
  Claim C10, as the code has it. The constructor raises \<^verbatim>\<open>TypeError\<close> when
  \<open>screen_width // 2\<close> or \<open>screen_height - 50\<close> is outside the range of a C \<^verbatim>\<open>int\<close>.
  Otherwise it builds a player in which the two arguments reach only the rectangle,
  whose centre they put at \<open>(screen_width // 2, screen_height - 50)\<close>. For every
  player, \<^verbatim>\<open>update(keys)\<close> returns exactly when the moves that the keys select are within
  the range of a C \<^verbatim>\<open>int\<close>, and it is then the move followed by the clamp against \<open>0\<close>
  and the module constant \<open>SCREEN_WIDTH = 800\<close>, which no argument of the constructor
  enters. The clamp puts a rectangle with \<open>left < 0\<close> at \<open>left = 0\<close>, and a rectangle
  with \<open>left \<ge> 0\<close> and \<open>right > 800\<close> at \<open>right = 800\<close>, where \<open>right\<close> is the
  rectangle's own 32-bit sum \<open>x + w\<close>: a rectangle whose \<open>x + w\<close> is beyond the
  greatest C \<^verbatim>\<open>int\<close> is left where it is.
\<close>

theorem Player_clamps_to_module_constant:
  "Player_init tx screen_width screen_height idx lk rk =
     (if fits_int (screen_width div 2) \<and> fits_int (screen_height - 50)
      then Inr \<lparr>index = idx, left_key = lk, right_key = rk, lives = 3,
                p_rect = \<lparr>rect_x = word_of_int (screen_width div 2) - half (fst (Player_png tx)),
                          rect_y = word_of_int (screen_height - 50) - half (snd (Player_png tx)),
                          rect_w = fst (Player_png tx),
                          rect_h = snd (Player_png tx)\<rparr>,
                p_speed = 5\<rparr>
      else Inl TypeError) \<and>
   (Player_init tx screen_width screen_height idx lk rk = Inr p0 \<longrightarrow>
      center (p_rect p0) = (screen_width div 2, screen_height - 50)) \<and>
   (Player_moves_fit keys p \<longrightarrow>
      Player_update keys p = Inr (p\<lparr>p_rect := Player_clamped (Player_moved keys p)\<rparr>)) \<and>
   (\<not> Player_moves_fit keys p \<longrightarrow> \<not> returns (Player_update keys p)) \<and>
   (left r < 0 \<longrightarrow> Player_clamped r = r\<lparr>rect_x := 0\<rparr>) \<and>
   (0 \<le> left r \<and> SCREEN_WIDTH < right r \<longrightarrow>
      Player_clamped r = r\<lparr>rect_x := word_of_int SCREEN_WIDTH - rect_w r\<rparr> \<and>
      right (Player_clamped r) = SCREEN_WIDTH) \<and>
   (0 \<le> left r \<and> right r \<le> SCREEN_WIDTH \<longrightarrow> Player_clamped r = r) \<and>
   (0 \<le> left r \<and> 0 \<le> sint (rect_w r) \<and> 2147483647 < left r + sint (rect_w r) \<longrightarrow>
      Player_clamped r = r) \<and>
   SCREEN_WIDTH = 800"
proof -
  have c: "left r < 0 \<longrightarrow> Player_clamped r = r\<lparr>rect_x := 0\<rparr>"
    "0 \<le> left r \<and> SCREEN_WIDTH < right r \<longrightarrow>
      Player_clamped r = r\<lparr>rect_x := word_of_int SCREEN_WIDTH - rect_w r\<rparr>"
    "0 \<le> left r \<and> right r \<le> SCREEN_WIDTH \<longrightarrow> Player_clamped r = r"
    by (simp_all add: Player_clamped_def)
  show ?thesis
    using Player_init_cases[of tx screen_width screen_height idx lk rk]
      Player_init_center[of tx screen_width screen_height idx lk rk p0]
      Player_update_returns[of keys p] Player_update_raises[of keys p]
      Player_clamped_right[of r] Player_clamped_wrapped[of r] c
    by (simp add: SCREEN_WIDTH_def)
qed

theorem Player_clamps_to_module_constant_witness:
  "Player_init example_textures 2000 600 1 K_a K_d = Inr wide_screen_player \<and>
   center (p_rect wide_screen_player) = (2000 div 2, 600 - 50) \<and>
   Player_moves_fit no_keys wide_screen_player \<and>
   left (p_rect wide_screen_player) = 975 \<and>
   right (p_rect wide_screen_player) = 1025 \<and>
   Player_update no_keys wide_screen_player =
     Inr (wide_screen_player\<lparr>p_rect := Player_clamped (p_rect wide_screen_player)\<rparr>) \<and>
   right (Player_clamped (p_rect wide_screen_player)) = SCREEN_WIDTH"
proof -
  note T = Player_clamps_to_module_constant[where tx = example_textures and screen_width = 2000
      and screen_height = 600 and idx = 1 and lk = K_a and rk = K_d
      and ?p0.0 = wide_screen_player and keys = no_keys and p = wide_screen_player
      and r = "p_rect wide_screen_player"]
  have c: "center (p_rect wide_screen_player) = (2000 div 2, 600 - 50)"
    using T[THEN conjunct2, THEN conjunct1] wide_screen_player_built by simp
  have u: "Player_update no_keys wide_screen_player =
     Inr (wide_screen_player\<lparr>p_rect := Player_clamped (p_rect wide_screen_player)\<rparr>)"
    using T[THEN conjunct2, THEN conjunct2, THEN conjunct1] wide_screen_player_fields(1,2)
    by simp
  have pre: "0 \<le> left (p_rect wide_screen_player) \<and>
             SCREEN_WIDTH < right (p_rect wide_screen_player)"
    by (simp add: wide_screen_player_fields(3,4) SCREEN_WIDTH_def)
  have r: "right (Player_clamped (p_rect wide_screen_player)) = SCREEN_WIDTH"
    using T[THEN conjunct2, THEN conjunct2, THEN conjunct2, THEN conjunct2, THEN conjunct2,
        THEN conjunct1, THEN mp, OF pre] by (rule conjunct2)
  show ?thesis
    using wide_screen_player_built c wide_screen_player_fields(1,3,4) u r
    by (intro conjI) assumption+
qed

text \<open>
  The player that \<^verbatim>\<open>Player(4294967260, 600)\<close> builds has its rectangle at
  \<open>x = 2147483605\<close>, far to the right of \<open>800\<close>. \<^verbatim>\<open>update(keys)\<close> with no key down
  returns and leaves it there: \<open>x + w\<close> wraps around to \<open>-2147483641\<close>, which is not
  above \<open>800\<close>. And \<^verbatim>\<open>Player(2 ** 40, 600)\<close> builds no player: the constructor raises
  \<^verbatim>\<open>TypeError\<close>.
\<close>

theorem Player_clamp_counterexample:
  "Player_init example_textures 4294967260 600 1 K_a K_d = Inr far_player \<and>
   left (p_rect far_player) = 2147483605 \<and>
   right (p_rect far_player) = - 2147483641 \<and>
   Player_update no_keys far_player = Inr far_player \<and>
   Player_init example_textures 1099511627776 600 1 K_a K_d = Inl TypeError"
  by (simp add: far_player_built)
     (simp add: Player_update_def far_player_def no_keys_def left_def right_def
        SCREEN_WIDTH_def Player_init_def set_center_def int_from_obj_def fits_int_def)

section \<open>The movement of an enemy\<close>

text \<open>
  The last four lines of \<^verbatim>\<open>Enemy.update\<close> (404-407), which run when the movement
  branch has not raised: the enemy after them.
\<close>

lemma Enemy_update_waiting:
  assumes "\<not> move_due e"
  shows "returns (Enemy_update e)"
    and "e_rect (Enemy_tick e) = e_rect e"
    and "direction (Enemy_tick e) = direction e"
    and "current_frame (Enemy_tick e) = current_frame e + 1"
  using assms
  by (simp_all add: Enemy_update_def Enemy_tick_def Let_def move_due_def returns_Inr
        state_after_Inr)

lemma Enemy_tick_constants:
  "move_delay (Enemy_tick e) = move_delay e"
  "e_speed (Enemy_tick e) = e_speed e"
  "shooting_cooldown (Enemy_tick e) = shooting_cooldown e"
  "rect_w (e_rect (Enemy_tick e)) = rect_w (e_rect e)"
  by (simp_all add: Enemy_update_def Enemy_tick_def Let_def set_x_cases set_y_cases
        state_after_Inr state_after_Inl)

lemma Enemy_update_move_raises:
  assumes "move_due e" "\<not> Enemy_move_fits e"
  shows "Enemy_update e = Inl (TypeError, e\<lparr>current_frame := current_frame e + 1\<rparr>)"
  using assms
  by (simp add: Enemy_update_def Let_def move_due_def Enemy_move_fits_def set_x_cases)

lemma Enemy_moved_y:
  "get_y (Enemy_moved e) = get_y (e_rect e)"
  by (simp add: Enemy_moved_def get_y_def)

lemma Enemy_update_no_edge:
  assumes "move_due e" "Enemy_move_fits e" "\<not> at_edge (Enemy_moved e)"
  shows "returns (Enemy_update e)"
    and "e_rect (Enemy_tick e) = Enemy_moved e"
    and "direction (Enemy_tick e) = direction e"
    and "current_frame (Enemy_tick e) = 0"
  using assms
  by (simp_all add: Enemy_update_def Enemy_tick_def Let_def move_due_def Enemy_move_fits_def
        Enemy_moved_def at_edge_def set_x_cases returns_Inr state_after_Inr
        del: of_int_add of_int_mult)

lemma Enemy_update_step_raises:
  assumes "move_due e" "Enemy_move_fits e" "at_edge (Enemy_moved e)"
    and "\<not> Enemy_step_down_fits e"
  shows "Enemy_update e =
     Inl (TypeError, e\<lparr>current_frame := current_frame e + 1, e_rect := Enemy_moved e,
                       direction := direction e * (- 1)\<rparr>)"
proof -
  have "\<not> fits_int (get_y (Enemy_moved e) + 20)"
    using assms(4) by (simp add: Enemy_moved_y Enemy_step_down_fits_def)
  then show ?thesis
    using assms(1,2,3)
    by (simp add: Enemy_update_def Let_def move_due_def Enemy_move_fits_def
          Enemy_moved_def at_edge_def set_x_cases set_y_cases
          del: of_int_add of_int_mult)
qed

lemma Enemy_update_edge:
  assumes "move_due e" "Enemy_move_fits e" "at_edge (Enemy_moved e)"
    and "Enemy_step_down_fits e"
  shows "returns (Enemy_update e)"
    and "e_rect (Enemy_tick e) =
           (Enemy_moved e)\<lparr>rect_y := word_of_int (get_y (e_rect e) + 20)\<rparr>"
    and "direction (Enemy_tick e) = direction e * (- 1)"
    and "current_frame (Enemy_tick e) = 0"
proof -
  have f: "fits_int (get_y (Enemy_moved e) + 20)"
    using assms(4) by (simp add: Enemy_moved_y Enemy_step_down_fits_def)
  have y: "get_y (Enemy_moved e) = get_y (e_rect e)" by (rule Enemy_moved_y)
  show "returns (Enemy_update e)"
    and "e_rect (Enemy_tick e) =
           (Enemy_moved e)\<lparr>rect_y := word_of_int (get_y (e_rect e) + 20)\<rparr>"
    and "direction (Enemy_tick e) = direction e * (- 1)"
    and "current_frame (Enemy_tick e) = 0"
    using assms(1,2,3) f unfolding y[symmetric]
    by (simp_all add: Enemy_update_def Enemy_tick_def Let_def move_due_def Enemy_move_fits_def
          Enemy_moved_def at_edge_def set_x_cases set_y_cases returns_Inr state_after_Inr
          del: of_int_add of_int_mult)
qed

lemma Enemy_update_returns_iff:
  "returns (Enemy_update e) \<longleftrightarrow>
     (move_due e \<longrightarrow> Enemy_move_fits e \<and> (at_edge (Enemy_moved e) \<longrightarrow> Enemy_step_down_fits e))"
proof (cases "move_due e")
  case False
  then show ?thesis using Enemy_update_waiting(1)[OF False] by simp
next
  case True
  show ?thesis
  proof (cases "Enemy_move_fits e")
    case False
    then show ?thesis using Enemy_update_move_raises[OF True False] True
      by (simp add: returns_Inl)
  next
    case f: True
    show ?thesis
    proof (cases "at_edge (Enemy_moved e)")
      case False
      then show ?thesis using Enemy_update_no_edge(1)[OF True f False] True f by simp
    next
      case edge: True
      show ?thesis
      proof (cases "Enemy_step_down_fits e")
        case False
        then show ?thesis using Enemy_update_step_raises[OF True f edge False] True f edge
          by (simp add: returns_Inl)
      next
        case s: True
        then show ?thesis using Enemy_update_edge(1)[OF True f edge s] True f edge by simp
      qed
    qed
  qed
qed

lemma Enemy_update_returned:
  assumes "returns (Enemy_update e)"
  shows "direction (Enemy_tick e) =
           (if move_due e \<and> at_edge (Enemy_moved e) then direction e * (- 1) else direction e)"
    and "get_y (e_rect (Enemy_tick e)) =
           get_y (e_rect e) + (if move_due e \<and> at_edge (Enemy_moved e) then 20 else 0)"
proof -
  have c: "move_due e \<longrightarrow> Enemy_move_fits e \<and> (at_edge (Enemy_moved e) \<longrightarrow> Enemy_step_down_fits e)"
    using assms by (simp add: Enemy_update_returns_iff)
  have y20: "Enemy_step_down_fits e \<Longrightarrow>
      get_y ((Enemy_moved e)\<lparr>rect_y := word_of_int (get_y (e_rect e) + 20)\<rparr>) = get_y (e_rect e) + 20"
    by (simp add: Enemy_step_down_fits_def get_y_def sint_word_of_int_fits del: of_int_add)
  show "direction (Enemy_tick e) =
           (if move_due e \<and> at_edge (Enemy_moved e) then direction e * (- 1) else direction e)"
    using c Enemy_update_waiting(3)[of e] Enemy_update_no_edge(3)[of e] Enemy_update_edge(3)[of e]
    by auto
  show "get_y (e_rect (Enemy_tick e)) =
           get_y (e_rect e) + (if move_due e \<and> at_edge (Enemy_moved e) then 20 else 0)"
  proof (cases "move_due e")
    case False
    then show ?thesis using Enemy_update_waiting(2)[OF False] by simp
  next
    case True
    with c have f: "Enemy_move_fits e" by simp
    show ?thesis
    proof (cases "at_edge (Enemy_moved e)")
      case False
      then show ?thesis
        using Enemy_update_no_edge(2)[OF True f False] True Enemy_moved_y[of e] by simp
    next
      case edge: True
      with c True have s: "Enemy_step_down_fits e" by simp
      show ?thesis
        using Enemy_update_edge(2)[OF True f edge s] y20[OF s] True edge by simp
    qed
  qed
qed

text \<open>
  With the frame counter at \<open>0\<close> and \<open>move_delay = 10\<close>, the first nine calls return
  and change neither the rectangle nor the direction.
\<close>

lemma Enemy_waiting:
  assumes "current_frame e = 0" "move_delay e = 10"
  shows "n < 10 \<Longrightarrow>
     current_frame ((Enemy_tick ^^ n) e) = int n \<and>
     move_delay ((Enemy_tick ^^ n) e) = 10 \<and>
     e_rect ((Enemy_tick ^^ n) e) = e_rect e \<and>
     e_speed ((Enemy_tick ^^ n) e) = e_speed e \<and>
     direction ((Enemy_tick ^^ n) e) = direction e"
proof (induction n)
  case 0
  then show ?case using assms by simp
next
  case (Suc n)
  define c where "c = (Enemy_tick ^^ n) e"
  from Suc have IH: "current_frame c = int n" "move_delay c = 10"
    "e_rect c = e_rect e" "e_speed c = e_speed e" "direction c = direction e"
    by (simp_all add: c_def)
  have nd: "\<not> move_due c" using IH Suc.prems by (simp add: move_due_def)
  have step: "(Enemy_tick ^^ Suc n) e = Enemy_tick c" by (simp add: c_def)
  show ?case unfolding step using IH Enemy_update_waiting[OF nd]
    by (simp add: Enemy_tick_constants)
qed

lemma Enemy_waiting_returns:
  assumes "current_frame e = 0" "move_delay e = 10" "n < 9"
  shows "returns (Enemy_update ((Enemy_tick ^^ n) e))"
proof -
  have "\<not> move_due ((Enemy_tick ^^ n) e)"
    using Enemy_waiting[OF assms(1,2), of n] assms(3) by (simp add: move_due_def)
  then show ?thesis by (rule Enemy_update_waiting(1))
qed

lemma Enemy_ninth:
  assumes "current_frame e = 0" "move_delay e = 10"
  shows "move_due ((Enemy_tick ^^ 9) e)"
    and "e_rect ((Enemy_tick ^^ 9) e) = e_rect e"
    and "e_speed ((Enemy_tick ^^ 9) e) = e_speed e"
    and "direction ((Enemy_tick ^^ 9) e) = direction e"
    and "(Enemy_tick ^^ 10) e = Enemy_tick ((Enemy_tick ^^ 9) e)"
  using Enemy_waiting[OF assms, of 9]
  by (simp_all add: move_due_def numeral_eq_Suc)

lemma Enemy_tick_x:
  assumes "move_due e" "Enemy_move_fits e"
  shows "get_x (e_rect (Enemy_tick e)) = get_x (e_rect e) + e_speed e * direction e"
    and "rect_x (e_rect (Enemy_tick e)) = word_of_int (get_x (e_rect e) + e_speed e * direction e)"
proof -
  have m: "get_x (Enemy_moved e) = get_x (e_rect e) + e_speed e * direction e"
    using assms(2)
    by (simp add: Enemy_moved_def Enemy_move_fits_def get_x_def sint_word_of_int_fits
          del: of_int_add of_int_mult)
  have r: "rect_x (e_rect (Enemy_tick e)) = rect_x (Enemy_moved e)"
  proof (cases "at_edge (Enemy_moved e)")
    case False
    then show ?thesis using Enemy_update_no_edge(2)[OF assms] by simp
  next
    case True
    show ?thesis
    proof (cases "Enemy_step_down_fits e")
      case True
      then show ?thesis using Enemy_update_edge(2)[OF assms \<open>at_edge (Enemy_moved e)\<close>] by simp
    next
      case False
      then show ?thesis
        using Enemy_update_step_raises[OF assms \<open>at_edge (Enemy_moved e)\<close>]
        by (simp add: Enemy_tick_def state_after_Inl)
    qed
  qed
  show "get_x (e_rect (Enemy_tick e)) = get_x (e_rect e) + e_speed e * direction e"
    using r m by (simp add: get_x_def)
  show "rect_x (e_rect (Enemy_tick e)) = word_of_int (get_x (e_rect e) + e_speed e * direction e)"
    using r by (simp add: Enemy_moved_def)
qed

lemma Enemy_tenth_update:
  assumes "current_frame e = 0" "move_delay e = 10" "e_speed e = 10" "direction e = 1"
    and "fits_int (get_x (e_rect e) + 10)"
  shows "get_x (e_rect ((Enemy_tick ^^ 10) e)) = get_x (e_rect e) + 10"
    and "rect_x (e_rect ((Enemy_tick ^^ 10) e)) = word_of_int (get_x (e_rect e) + 10)"
    and "rect_w (e_rect ((Enemy_tick ^^ 10) e)) = rect_w (e_rect e)"
proof -
  define c where "c = (Enemy_tick ^^ 9) e"
  have w: "move_due c" "e_rect c = e_rect e" "e_speed c = 10" "direction c = 1"
    "(Enemy_tick ^^ 10) e = Enemy_tick c"
    using Enemy_ninth[OF assms(1,2)] assms(3,4) by (simp_all add: c_def)
  have f: "Enemy_move_fits c" using assms(5) w by (simp add: Enemy_move_fits_def)
  show "get_x (e_rect ((Enemy_tick ^^ 10) e)) = get_x (e_rect e) + 10"
    unfolding w(5) using Enemy_tick_x(1)[OF w(1) f] w by simp
  show "rect_x (e_rect ((Enemy_tick ^^ 10) e)) = word_of_int (get_x (e_rect e) + 10)"
    unfolding w(5) using Enemy_tick_x(2)[OF w(1) f] w by simp
  show "rect_w (e_rect ((Enemy_tick ^^ 10) e)) = rect_w (e_rect e)"
    unfolding w(5) using w(2) by (simp add: Enemy_tick_constants)
qed

lemma half_bounds:
  "- 1073741824 \<le> sint (half c)" "sint (half c) \<le> 1073741823"
proof -
  define t where "t = sint c div 2"
  have b: "- 2147483648 \<le> sint c" "sint c \<le> 2147483647" by (rule sint_bounds)+
  have t: "- 1073741824 \<le> t" "t \<le> 1073741823"
    using b by (auto simp add: t_def)
  then have "sint (word_of_int t :: 32 word) = t"
    by (intro sint_word_of_int_fits) (simp add: fits_int_def)
  then have "sint (half c) = t" by (simp add: half_def t_def)
  with t show "- 1073741824 \<le> sint (half c)" "sint (half c) \<le> 1073741823" by simp_all
qed

lemma Enemy_init_built:
  assumes "Enemy_init img x y = Inr e0"
  shows "current_frame e0 = 0" "move_delay e0 = 10" "e_speed e0 = 10" "direction e0 = 1"
    and "rect_x (e_rect e0) = word_of_int x - half (rect_w (e_rect e0))"
    and "fits_int x"
  using assms
  by (auto simp add: Enemy_init_def Let_def get_rect_center_def set_center_def get_rect_def
        int_from_obj_def split: option.splits if_splits)

lemma example_enemy_built:
  "Enemy_init None 25 100 = Inr example_enemy"
  by (simp add: Enemy_init_def example_enemy_def get_rect_center_def set_center_def
        int_from_obj_def fits_int_def get_rect_def half_def)

lemma example_enemy_fields:
  "current_frame example_enemy = 0" "move_delay example_enemy = 10"
  "e_speed example_enemy = 10" "direction example_enemy = 1"
  "rect_x (e_rect example_enemy) = 0" "can_shoot example_enemy"
  "shooting_cooldown example_enemy = 1"
  by (simp_all add: example_enemy_def)

lemma high_enemy_built:
  "Enemy_init None 0 2147483647 = Inr high_enemy"
  by (simp add: Enemy_init_def high_enemy_def get_rect_center_def set_center_def
        int_from_obj_def fits_int_def get_rect_def half_def)

text \<open>
  Claim C8, as the code has it. \<^verbatim>\<open>update()\<close> returns unless it moves the enemy and
  either \<^verbatim>\<open>rect.x + speed * direction\<close> is outside the range of a C \<^verbatim>\<open>int\<close>, or the
  moved rectangle is at an edge and \<^verbatim>\<open>rect.y + 20\<close> is outside that range. A call that
  returns multiplies \<open>direction\<close> by \<open>-1\<close> exactly when it moves the enemy and the
  moved rectangle has \<open>right \<ge> SCREEN_WIDTH\<close> or \<open>left \<le> 0\<close> (\<open>right\<close> as the
  rectangle computes it), and leaves it as it is otherwise; the same calls, and no
  others, add \<open>20\<close> to the vertical position. A call that raises on \<^verbatim>\<open>rect.x\<close> has
  changed only the frame counter; a call that raises on \<^verbatim>\<open>rect.y\<close> has moved the
  rectangle and multiplied \<open>direction\<close> by \<open>-1\<close>, and has not added \<open>20\<close>. An enemy
  whose rectangle is at \<open>x = 0\<close>, with \<open>direction = 1\<close>, \<open>speed = 10\<close>,
  \<open>move_delay = 10\<close> and the frame counter at \<open>0\<close>, is at \<open>x = 10\<close> after ten calls,
  the first nine of which return; an enemy that the constructor has built with
  \<open>x = 0\<close> (the centre of its rectangle) has its centre at \<open>x = 10\<close> after ten calls.
\<close>

theorem Enemy_direction_flips:
  "(returns (Enemy_update e) \<longleftrightarrow>
      (move_due e \<longrightarrow>
         Enemy_move_fits e \<and> (at_edge (Enemy_moved e) \<longrightarrow> Enemy_step_down_fits e))) \<and>
   (returns (Enemy_update e) \<longrightarrow>
      direction (Enemy_tick e) =
        (if move_due e \<and> at_edge (Enemy_moved e) then direction e * (- 1) else direction e) \<and>
      get_y (e_rect (Enemy_tick e)) =
        get_y (e_rect e) + (if move_due e \<and> at_edge (Enemy_moved e) then 20 else 0)) \<and>
   (move_due e \<and> \<not> Enemy_move_fits e \<longrightarrow>
      Enemy_update e = Inl (TypeError, e\<lparr>current_frame := current_frame e + 1\<rparr>)) \<and>
   (move_due e \<and> Enemy_move_fits e \<and> at_edge (Enemy_moved e) \<and> \<not> Enemy_step_down_fits e \<longrightarrow>
      Enemy_update e =
        Inl (TypeError, e\<lparr>current_frame := current_frame e + 1, e_rect := Enemy_moved e,
                          direction := direction e * (- 1)\<rparr>)) \<and>
   (current_frame e = 0 \<and> move_delay e = 10 \<and> e_speed e = 10 \<and> direction e = 1 \<and>
    rect_x (e_rect e) = 0 \<longrightarrow>
      get_x (e_rect ((Enemy_tick ^^ 10) e)) = 10 \<and>
      (\<forall>n < 9. returns (Enemy_update ((Enemy_tick ^^ n) e)))) \<and>
   (Enemy_init img 0 y = Inr e0 \<longrightarrow> centerx (e_rect ((Enemy_tick ^^ 10) e0)) = 10)"
proof (intro conjI impI)
  show "returns (Enemy_update e) \<longleftrightarrow>
      (move_due e \<longrightarrow>
         Enemy_move_fits e \<and> (at_edge (Enemy_moved e) \<longrightarrow> Enemy_step_down_fits e))"
    by (rule Enemy_update_returns_iff)
next
  assume "returns (Enemy_update e)"
  then show "direction (Enemy_tick e) =
        (if move_due e \<and> at_edge (Enemy_moved e) then direction e * (- 1) else direction e)"
    by (rule Enemy_update_returned(1))
next
  assume "returns (Enemy_update e)"
  then show "get_y (e_rect (Enemy_tick e)) =
        get_y (e_rect e) + (if move_due e \<and> at_edge (Enemy_moved e) then 20 else 0)"
    by (rule Enemy_update_returned(2))
next
  assume "move_due e \<and> \<not> Enemy_move_fits e"
  then show "Enemy_update e = Inl (TypeError, e\<lparr>current_frame := current_frame e + 1\<rparr>)"
    using Enemy_update_move_raises by blast
next
  assume "move_due e \<and> Enemy_move_fits e \<and> at_edge (Enemy_moved e) \<and> \<not> Enemy_step_down_fits e"
  then show "Enemy_update e =
        Inl (TypeError, e\<lparr>current_frame := current_frame e + 1, e_rect := Enemy_moved e,
                          direction := direction e * (- 1)\<rparr>)"
    using Enemy_update_step_raises by blast
next
  assume a: "current_frame e = 0 \<and> move_delay e = 10 \<and> e_speed e = 10 \<and> direction e = 1 \<and>
    rect_x (e_rect e) = 0"
  then have x: "get_x (e_rect e) = 0" by (simp add: get_x_def)
  then have "fits_int (get_x (e_rect e) + 10)" by (simp add: fits_int_def)
  then show "get_x (e_rect ((Enemy_tick ^^ 10) e)) = 10"
    using Enemy_tenth_update(1)[of e] a x by simp
next
  assume a: "current_frame e = 0 \<and> move_delay e = 10 \<and> e_speed e = 10 \<and> direction e = 1 \<and>
    rect_x (e_rect e) = 0"
  then show "\<forall>n < 9. returns (Enemy_update ((Enemy_tick ^^ n) e))"
    using Enemy_waiting_returns[of e] by blast
next
  assume b: "Enemy_init img 0 y = Inr e0"
  note f = Enemy_init_built[OF b]
  define h where "h = half (rect_w (e_rect e0))"
  have hb: "- 1073741824 \<le> sint h" "sint h \<le> 1073741823"
    unfolding h_def by (rule half_bounds)+
  have x0: "rect_x (e_rect e0) = 0 - h" using f(5) by (simp add: h_def)
  have "sint (0 - h) = sint (0 :: 32 word) - sint h"
    by (rule sint_sub_fits) (use hb in \<open>simp add: fits_int_def\<close>)
  then have gx: "get_x (e_rect e0) = - sint h" by (simp add: get_x_def x0)
  have fit: "fits_int (get_x (e_rect e0) + 10)" using hb by (simp add: gx fits_int_def)
  have "rect_x (e_rect ((Enemy_tick ^^ 10) e0)) = word_of_int (get_x (e_rect e0) + 10)"
    "rect_w (e_rect ((Enemy_tick ^^ 10) e0)) = rect_w (e_rect e0)"
    using Enemy_tenth_update(2,3)[OF f(1,2,3,4) fit] by simp_all
  then have "centerx (e_rect ((Enemy_tick ^^ 10) e0)) = sint (10 :: 32 word)"
    by (simp add: centerx_def get_x_def x0 h_def)
  then show "centerx (e_rect ((Enemy_tick ^^ 10) e0)) = 10" by simp
qed

theorem Enemy_direction_flips_witness:
  "Enemy_init None 25 100 = Inr example_enemy \<and>
   current_frame example_enemy = 0 \<and> move_delay example_enemy = 10 \<and>
   e_speed example_enemy = 10 \<and> direction example_enemy = 1 \<and>
   rect_x (e_rect example_enemy) = 0 \<and>
   get_x (e_rect ((Enemy_tick ^^ 10) example_enemy)) = 10 \<and>
   returns (Enemy_update ((Enemy_tick ^^ 8) example_enemy)) \<and>
   returns (Enemy_update example_enemy) \<and>
   direction (Enemy_tick example_enemy) = 1"
proof -
  note T = Enemy_direction_flips[where e = example_enemy]
  have nd: "\<not> move_due example_enemy" by (simp add: move_due_def example_enemy_def)
  have r: "returns (Enemy_update example_enemy)"
    using T[THEN conjunct1] nd by simp
  have d: "direction (Enemy_tick example_enemy) = 1"
    using T[THEN conjunct2, THEN conjunct1] r nd example_enemy_fields(4) by simp
  have x: "get_x (e_rect ((Enemy_tick ^^ 10) example_enemy)) = 10"
    "returns (Enemy_update ((Enemy_tick ^^ 8) example_enemy))"
    using T[THEN conjunct2, THEN conjunct2, THEN conjunct2, THEN conjunct2, THEN conjunct1]
      example_enemy_fields(1,2,3,4,5) by simp_all
  show ?thesis
    using example_enemy_built example_enemy_fields(1,2,3,4,5) x r d
    by (intro conjI) assumption+
qed

text \<open>
  The enemy that \<^verbatim>\<open>Enemy(0, 2147483647, path)\<close> builds with the placeholder image
  starts at \<open>x = -25\<close>, \<open>y = 2147483627\<close>. Its tenth call moves it to \<open>x = -15\<close>, flips
  the direction to \<open>-1\<close> and puts it at \<open>y = 2147483647\<close>. Its twentieth call moves it
  back to \<open>x = -25\<close>, flips the direction to \<open>1\<close>, and then raises \<^verbatim>\<open>TypeError\<close> at
  line 400: this flip adds nothing to the vertical position.
\<close>

lemma high_enemy_tenth:
  "current_frame ((Enemy_tick ^^ 10) high_enemy) = 0"
  "move_delay ((Enemy_tick ^^ 10) high_enemy) = 10"
  "e_speed ((Enemy_tick ^^ 10) high_enemy) = 10"
  "direction ((Enemy_tick ^^ 10) high_enemy) = - 1"
  "e_rect ((Enemy_tick ^^ 10) high_enemy) =
     \<lparr>rect_x = - 15, rect_y = 2147483647, rect_w = 50, rect_h = 40\<rparr>"
proof -
  have h: "current_frame high_enemy = 0" "move_delay high_enemy = 10"
    by (simp_all add: high_enemy_def)
  define c where "c = (Enemy_tick ^^ 9) high_enemy"
  have w: "move_due c" "e_rect c = e_rect high_enemy" "e_speed c = 10" "direction c = 1"
    "(Enemy_tick ^^ 10) high_enemy = Enemy_tick c"
    using Enemy_ninth[OF h] by (simp_all add: c_def) (simp_all add: high_enemy_def)
  have m: "Enemy_moved c = \<lparr>rect_x = - 15, rect_y = 2147483627, rect_w = 50, rect_h = 40\<rparr>"
    by (simp add: Enemy_moved_def w high_enemy_def get_x_def)
  have f: "Enemy_move_fits c" "at_edge (Enemy_moved c)" "Enemy_step_down_fits c"
    unfolding m
    by (simp_all add: Enemy_move_fits_def Enemy_step_down_fits_def at_edge_def w high_enemy_def
          get_x_def get_y_def left_def fits_int_def)
  note u = Enemy_update_edge[OF w(1) f]
  show "current_frame ((Enemy_tick ^^ 10) high_enemy) = 0"
    unfolding w(5) by (rule u(4))
  show "move_delay ((Enemy_tick ^^ 10) high_enemy) = 10"
    unfolding w(5) using Enemy_waiting[OF h, of 9] by (simp add: Enemy_tick_constants c_def)
  show "e_speed ((Enemy_tick ^^ 10) high_enemy) = 10"
    unfolding w(5) using w(3) by (simp add: Enemy_tick_constants)
  show "direction ((Enemy_tick ^^ 10) high_enemy) = - 1"
    unfolding w(5) using u(3) w(4) by simp
  show "e_rect ((Enemy_tick ^^ 10) high_enemy) =
     \<lparr>rect_x = - 15, rect_y = 2147483647, rect_w = 50, rect_h = 40\<rparr>"
    unfolding w(5) u(2) m by (simp add: w high_enemy_def get_y_def)
qed

theorem Enemy_flip_counterexample:
  "Enemy_init None 0 2147483647 = Inr high_enemy \<and>
   direction ((Enemy_tick ^^ 19) high_enemy) = - 1 \<and>
   get_y (e_rect ((Enemy_tick ^^ 19) high_enemy)) = 2147483647 \<and>
   \<not> returns (Enemy_update ((Enemy_tick ^^ 19) high_enemy)) \<and>
   direction ((Enemy_tick ^^ 20) high_enemy) = 1 \<and>
   get_y (e_rect ((Enemy_tick ^^ 20) high_enemy)) = 2147483647"
proof -
  define d where "d = (Enemy_tick ^^ 10) high_enemy"
  note t = high_enemy_tenth[folded d_def]
  define c where "c = (Enemy_tick ^^ 9) d"
  have c19: "(Enemy_tick ^^ 19) high_enemy = c"
    using funpow_add[of 9 10 Enemy_tick] by (simp add: c_def d_def)
  have c20: "(Enemy_tick ^^ 20) high_enemy = Enemy_tick c"
    using funpow_add[of 10 10 Enemy_tick] Enemy_ninth(5)[OF t(1,2)]
    by (simp add: c_def d_def)
  have w: "move_due c" "e_rect c = e_rect d" "e_speed c = 10" "direction c = - 1"
    using Enemy_ninth[OF t(1,2)] t(3,4) by (simp_all add: c_def)
  have m: "Enemy_moved c = \<lparr>rect_x = - 25, rect_y = 2147483647, rect_w = 50, rect_h = 40\<rparr>"
    by (simp add: Enemy_moved_def w t(5) get_x_def)
  have f: "Enemy_move_fits c" "at_edge (Enemy_moved c)" "\<not> Enemy_step_down_fits c"
    unfolding m
    by (simp_all add: Enemy_move_fits_def Enemy_step_down_fits_def at_edge_def w t(5)
          get_x_def get_y_def left_def fits_int_def)
  note u = Enemy_update_step_raises[OF w(1) f]
  have a: "\<not> returns (Enemy_update c)" unfolding u by (rule returns_Inl)
  have b: "direction (Enemy_tick c) = 1" "get_y (e_rect (Enemy_tick c)) = 2147483647"
    unfolding Enemy_tick_def u state_after_Inl m using w(4) by (simp_all add: get_y_def)
  have y: "get_y (e_rect c) = 2147483647" by (simp add: w(2) t(5) get_y_def)
  show ?thesis
    unfolding c19 c20 using high_enemy_built w(4) y a b by (intro conjI) assumption+
qed

section \<open>The shots of an enemy\<close>

lemma Bullet_init_fits:
  assumes "fits_int x" "fits_int y"
  shows "\<exists>b. Bullet_init tx x y en = Inr b \<and> is_enemy b = en \<and>
             center (b_rect b) = (x, y)"
proof -
  define s where "s = (if en then EnemyBullet1_png tx else PlayerBullet1_png tx)"
  define r where "r = \<lparr>rect_x = word_of_int x - half (fst s), rect_y = word_of_int y - half (snd s),
                        rect_w = fst s, rect_h = snd s\<rparr>"
  have c: "set_center (x, y) (get_rect s) = Inr r"
    using assms by (simp add: set_center_def int_from_obj_def get_rect_def r_def)
  have "center r = (x, y)"
    using sint_word_of_int_fits[OF assms(1)] sint_word_of_int_fits[OF assms(2)]
    by (simp add: center_def centerx_def centery_def r_def)
  then show ?thesis
    unfolding Bullet_init_def s_def[symmetric] c by simp
qed

lemma shoot_ready:
  assumes "can_shoot e"
  shows "\<exists>b. Bullet_init tx (centerx (e_rect e)) (bottom (e_rect e)) True = Inr b \<and>
             shoot tx e = Inr (Some b, e\<lparr>can_shoot := False, shooting_timer := shooting_cooldown e\<rparr>) \<and>
             is_enemy b \<and>
             center (b_rect b) = (centerx (e_rect e), bottom (e_rect e))"
proof -
  have "fits_int (centerx (e_rect e))" "fits_int (bottom (e_rect e))"
    by (simp_all add: centerx_def bottom_def fits_sint)
  from Bullet_init_fits[OF this, of tx True] obtain b where
    b: "Bullet_init tx (centerx (e_rect e)) (bottom (e_rect e)) True = Inr b" "is_enemy b"
       "center (b_rect b) = (centerx (e_rect e), bottom (e_rect e))"
    by auto
  have "shoot tx e = Inr (Some b, e\<lparr>can_shoot := False, shooting_timer := shooting_cooldown e\<rparr>)"
    using assms b(1) by (simp add: shoot_def Let_def)
  with b show ?thesis by blast
qed

lemma shoot_not_ready:
  "\<not> can_shoot e \<Longrightarrow> shoot tx e = Inr (None, e)"
  by (simp add: shoot_def)

lemma Enemy_tick_shooting:
  assumes "\<not> can_shoot e" "0 < shooting_timer e"
  shows "\<not> can_shoot (Enemy_tick e)" and "shooting_timer e - 1 \<le> shooting_timer (Enemy_tick e)"
  using assms
  by (simp_all add: Enemy_update_def Enemy_tick_def Let_def set_x_cases set_y_cases
        state_after_Inr state_after_Inl)

lemma Enemy_calls_silent:
  "\<not> can_shoot e \<Longrightarrow> int (count_list cs Tick) \<le> shooting_timer e \<Longrightarrow>
     fst (Enemy_calls tx cs e) = []"
proof (induction cs arbitrary: e)
  case Nil
  then show ?case by simp
next
  case (Cons c cs)
  show ?case
  proof (cases c)
    case Tick
    with Cons.prems have t: "0 < shooting_timer e"
      "int (count_list cs Tick) \<le> shooting_timer e - 1" by simp_all
    have "\<not> can_shoot (Enemy_tick e)"
      using Enemy_tick_shooting(1)[OF Cons.prems(1) t(1)] .
    moreover have "int (count_list cs Tick) \<le> shooting_timer (Enemy_tick e)"
      using Enemy_tick_shooting(2)[OF Cons.prems(1) t(1)] t(2) by linarith
    ultimately show ?thesis using Cons.IH[of "Enemy_tick e"] Tick by simp
  next
    case Shoot
    have "shoot tx e = Inr (None, e)" using Cons.prems(1) by (rule shoot_not_ready)
    then show ?thesis using Cons.IH[of e] Cons.prems Shoot by simp
  qed
qed

lemma fired_enemy_fields:
  "\<not> can_shoot fired_enemy"
  "fired_enemy = example_enemy\<lparr>can_shoot := False,
                               shooting_timer := shooting_cooldown example_enemy\<rparr>"
  by (simp_all add: fired_enemy_def example_enemy_def)

text \<open>
  Claim C7. When \<open>can_shoot\<close> is true, \<^verbatim>\<open>shoot()\<close> returns the bullet that the
  constructor builds at \<open>(rect.centerx, rect.bottom)\<close> with \<open>is_enemy = True\<close> (the
  constructor does build it: both coordinates come from the rectangle, so they are
  within the range of a C \<^verbatim>\<open>int\<close>), whose centre is that point, and leaves the enemy
  with \<open>can_shoot\<close> false and the timer at \<open>shooting_cooldown\<close>. When \<open>can_shoot\<close> is
  false it returns nothing and changes nothing. After a shot that succeeds, in any run
  of \<^verbatim>\<open>update()\<close> and \<^verbatim>\<open>shoot()\<close> calls with no more than \<open>shooting_cooldown\<close>
  \<^verbatim>\<open>update()\<close> calls, no other \<^verbatim>\<open>shoot()\<close> returns a bullet.
\<close>

theorem Enemy_shoot_once_per_cooldown:
  "(can_shoot e \<longrightarrow>
      (\<exists>b. Bullet_init tx (centerx (e_rect e)) (bottom (e_rect e)) True = Inr b \<and>
           shoot tx e = Inr (Some b, e\<lparr>can_shoot := False,
                                       shooting_timer := shooting_cooldown e\<rparr>) \<and>
           is_enemy b \<and>
           center (b_rect b) = (centerx (e_rect e), bottom (e_rect e)))) \<and>
   (\<not> can_shoot e \<longrightarrow> shoot tx e = Inr (None, e)) \<and>
   (can_shoot e \<and> int (count_list cs Tick) \<le> shooting_cooldown e \<longrightarrow>
      (\<exists>b. Bullet_init tx (centerx (e_rect e)) (bottom (e_rect e)) True = Inr b \<and>
           fst (Enemy_calls tx (Shoot # cs) e) = [b]))"
proof (intro conjI impI)
  assume "can_shoot e"
  then show "\<exists>b. Bullet_init tx (centerx (e_rect e)) (bottom (e_rect e)) True = Inr b \<and>
           shoot tx e = Inr (Some b, e\<lparr>can_shoot := False,
                                       shooting_timer := shooting_cooldown e\<rparr>) \<and>
           is_enemy b \<and>
           center (b_rect b) = (centerx (e_rect e), bottom (e_rect e))"
    by (rule shoot_ready)
next
  assume "\<not> can_shoot e"
  then show "shoot tx e = Inr (None, e)" by (rule shoot_not_ready)
next
  assume c: "can_shoot e \<and> int (count_list cs Tick) \<le> shooting_cooldown e"
  define e' where "e' = e\<lparr>can_shoot := False, shooting_timer := shooting_cooldown e\<rparr>"
  from c shoot_ready[of e tx] obtain b where
    b: "Bullet_init tx (centerx (e_rect e)) (bottom (e_rect e)) True = Inr b"
       "shoot tx e = Inr (Some b, e')"
    by (auto simp add: e'_def)
  have "fst (Enemy_calls tx cs e') = []"
    using c by (intro Enemy_calls_silent) (simp_all add: e'_def)
  then have "fst (Enemy_calls tx (Shoot # cs) e) = [b]"
    using b(2) by (simp add: split_beta)
  with b(1) show "\<exists>b. Bullet_init tx (centerx (e_rect e)) (bottom (e_rect e)) True = Inr b \<and>
           fst (Enemy_calls tx (Shoot # cs) e) = [b]"
    by blast
qed

theorem Enemy_shoot_once_per_cooldown_witness:
  "Enemy_init None 25 100 = Inr example_enemy \<and>
   can_shoot example_enemy \<and>
   int (count_list [Shoot, Tick, Shoot] Tick) \<le> shooting_cooldown example_enemy \<and>
   Bullet_init example_textures 25 120 True = Inr example_shot \<and>
   shoot example_textures example_enemy = Inr (Some example_shot, fired_enemy) \<and>
   fst (Enemy_calls example_textures (Shoot # [Shoot, Tick, Shoot]) example_enemy) =
     [example_shot] \<and>
   \<not> can_shoot fired_enemy \<and>
   shoot example_textures fired_enemy = Inr (None, fired_enemy)"
proof -
  note T = Enemy_shoot_once_per_cooldown[where e = example_enemy and tx = example_textures
        and cs = "[Shoot, Tick, Shoot]"]
  have c: "int (count_list [Shoot, Tick, Shoot] Tick) \<le> shooting_cooldown example_enemy"
    by (simp add: example_enemy_fields)
  have p: "centerx (e_rect example_enemy) = 25" "bottom (e_rect example_enemy) = 120"
    by (simp_all add: example_enemy_def centerx_def bottom_def half_def)
  have b: "Bullet_init example_textures 25 120 True = Inr example_shot"
    by (simp add: Bullet_init_def example_textures_def example_shot_def set_center_def
          int_from_obj_def fits_int_def get_rect_def half_def)
  have t0: "shoot example_textures example_enemy = Inr (Some example_shot, fired_enemy)"
    using T[THEN conjunct1] example_enemy_fields(6)
    unfolding p b fired_enemy_fields(2)[symmetric] by simp
  have t1: "fst (Enemy_calls example_textures (Shoot # [Shoot, Tick, Shoot]) example_enemy) =
              [example_shot]"
    using T[THEN conjunct2, THEN conjunct2] c example_enemy_fields(6)
    unfolding p b by simp
  have t2: "shoot example_textures fired_enemy = Inr (None, fired_enemy)"
    using Enemy_shoot_once_per_cooldown[where e = fired_enemy and tx = example_textures]
      fired_enemy_fields(1)
    by blast
  show ?thesis
    using example_enemy_built c example_enemy_fields(6) b t0 t1 fired_enemy_fields(1) t2
    by (intro conjI) assumption+
qed

end
